theory Spec2Isabelle
  imports Main "HOL-Library.Sublist"
begin

section \<open>Text\<close>

text \<open>
  A Python \<open>str\<close> is modelled as a \<open>string\<close>: a list of characters, each a code point
  below 256. On such text \<open>str.lower\<close> moves the upper-case letters \<open>A\<close>-\<open>Z\<close> and the
  accented capitals 192-222 (without the multiplication sign 215) up by 32 and leaves every
  other character alone; \<open>str.isspace\<close>, which is also the class \<open>\s\<close> of \<open>re\<close> and the
  separator of \<open>str.split()\<close>, holds of 9-13, 28-32, 133 and 160.
\<close>

definition is_upper :: "char \<Rightarrow> bool" where
  "is_upper c =
     (let n = (of_char c :: nat)
      in (65 \<le> n \<and> n \<le> 90) \<or> (192 \<le> n \<and> n \<le> 222 \<and> n \<noteq> 215))"

definition lower_char :: "char \<Rightarrow> char" where
  "lower_char c = (if is_upper c then char_of (of_char c + (32::nat)) else c)"

definition lower :: "string \<Rightarrow> string" where
  "lower s = map lower_char s"

definition is_space :: "char \<Rightarrow> bool" where
  "is_space c =
     (let n = (of_char c :: nat)
      in (9 \<le> n \<and> n \<le> 13) \<or> (28 \<le> n \<and> n \<le> 32) \<or> n = 133 \<or> n = 160)"

text \<open>\<open>s.startswith(w)\<close> and the substring test \<open>w in s\<close>.\<close>

fun starts_with :: "string \<Rightarrow> string \<Rightarrow> bool" where
  "starts_with s [] = True"
| "starts_with [] (c # w) = False"
| "starts_with (d # s) (c # w) = (d = c \<and> starts_with s w)"

fun contains :: "string \<Rightarrow> string \<Rightarrow> bool" where
  "contains [] w = starts_with [] w"
| "contains (c # s) w = (starts_with (c # s) w \<or> contains s w)"

text \<open>\<open>s.split()\<close>: the maximal runs of characters that are not white space.\<close>

fun split_from :: "string \<Rightarrow> string \<Rightarrow> string list" where
  "split_from w [] = (if w = [] then [] else [w])"
| "split_from w (c # s) =
     (if is_space c then (if w = [] then split_from [] s else w # split_from [] s)
      else split_from (w @ [c]) s)"

definition split :: "string \<Rightarrow> string list" where
  "split s = split_from [] s"

text \<open>\<open>s.strip()\<close>, \<open>sep.join(xs)\<close>, \<open>xs[-n:]\<close> and \<open>str(i)\<close> for an integer.\<close>

definition strip :: "string \<Rightarrow> string" where
  "strip s = rev (dropWhile is_space (rev (dropWhile is_space s)))"

fun join :: "string \<Rightarrow> string list \<Rightarrow> string" where
  "join sep [] = []"
| "join sep [x] = x"
| "join sep (x # y # xs) = x @ sep @ join sep (y # xs)"

definition last_n :: "nat \<Rightarrow> 'a list \<Rightarrow> 'a list" where
  "last_n n xs = drop (length xs - n) xs"

fun str_nat :: "nat \<Rightarrow> string" where
  "str_nat n =
     (if n < 10 then [char_of (48 + n)]
      else str_nat (n div 10) @ [char_of (48 + n mod 10)])"

definition str_int :: "int \<Rightarrow> string" where
  "str_int i = (if i < 0 then CHR ''-'' # str_nat (nat (- i)) else str_nat (nat i))"

section \<open>Regular expressions\<close>

text \<open>
  The patterns of the program are alternations of literal words, two of them joined by
  \<open>\s+\<close>. \<open>match_at r s\<close> lists what is left of \<open>s\<close> after each way of matching \<open>r\<close> at
  its start; \<open>search\<close> tries every position, as \<open>re.search\<close> does, and says whether a
  match was found. Every pattern is in lower case and is only ever run on lower-cased
  text, where the flag \<open>re.IGNORECASE\<close> changes nothing.
\<close>

datatype regex = Lit string | Alt "regex list" | Seq regex regex | Spaces

fun skip_spaces :: "string \<Rightarrow> string list" where
  "skip_spaces [] = []"
| "skip_spaces (c # s) = (if is_space c then s # skip_spaces s else [])"

fun match_at :: "regex \<Rightarrow> string \<Rightarrow> string list" where
  "match_at (Lit w) s = (if starts_with s w then [drop (length w) s] else [])"
| "match_at (Alt rs) s = concat (map (\<lambda>r. match_at r s) rs)"
| "match_at (Seq r1 r2) s = concat (map (match_at r2) (match_at r1 s))"
| "match_at Spaces s = skip_spaces s"

definition matches_at :: "regex \<Rightarrow> string \<Rightarrow> bool" where
  "matches_at r s = (case match_at r s of [] \<Rightarrow> False | x # xs \<Rightarrow> True)"

fun search :: "regex \<Rightarrow> string \<Rightarrow> bool" where
  "search r [] = matches_at r []"
| "search r (c # s) = (matches_at r (c # s) \<or> search r s)"

definition words :: "string list \<Rightarrow> regex" where
  "words ws = Alt (map Lit ws)"

section \<open>Data structures\<close>

datatype CapabilityLevel = BEGINNER | INTERMEDIATE | ADVANCED

fun level_value :: "CapabilityLevel \<Rightarrow> string" where
  "level_value BEGINNER = ''beginner''"
| "level_value INTERMEDIATE = ''intermediate''"
| "level_value ADVANCED = ''advanced''"

record Intent =
  surface_request :: string
  deep_need :: string
  underlying_motivation :: string
  ethical_flags :: "string list"
  growth_opportunity :: string

record CapabilityAssessment =
  level :: CapabilityLevel
  score :: int
  strengths :: "string list"
  weaknesses :: "string list"
  evidence :: string

record EthicalVerdict =
  is_harmful :: bool
  is_manipulative :: bool
  creates_dependency :: bool
  violates_dignity :: bool
  concerns :: "string list"
  should_proceed :: bool
  redirect_suggestion :: "string option"

record GrowthResponse =
  response_text :: string
  reasoning_log :: string
  capability_addressed :: string
  expected_outcome :: string
  follow_up_suggestions :: "string list"
  independence_score_impact :: string

text \<open>
  A reading of the clock (\<open>datetime.now()\<close>) is a number that the caller supplies. The
  dictionaries of a memory keep their insertion order, so they are association lists.
\<close>

type_synonym timestamp = nat

record ContextEntry =
  ctx_query :: string
  ctx_response :: string
  ctx_capability_level :: string
  ctx_capability_score :: int
  ctx_timestamp :: timestamp

record UserMemory =
  user_id :: string
  interaction_count :: int
  request_history :: "string list"
  capability_trend :: "int list"
  topic_expertise :: "(string \<times> int) list"
  learning_progress :: "(string \<times> string) list"
  last_interaction :: "timestamp option"
  conversation_context :: "ContextEntry list"

section \<open>Intent analyzer\<close>

definition direct_solution :: regex where
  "direct_solution =
     Seq (words [''write'', ''do'', ''solve'', ''complete'', ''code'', ''make'', ''build'',
                 ''create''])
         (Seq Spaces (words [''my'', ''the'', ''this'', ''your'']))"

definition lazy_seeking :: regex where
  "lazy_seeking =
     Seq (words [''just'', ''quickly'', ''fast'', ''easy'', ''simple'', ''just''])
         (Seq Spaces (words [''give'', ''show'', ''tell'']))"

definition genuine_learning :: regex where
  "genuine_learning =
     words [''how'', ''why'', ''understand'', ''learn'', ''explain'', ''teach'', ''work'',
            ''process'']"

definition collaboration :: regex where
  "collaboration =
     words [''together'', ''help me'', ''guide'', ''feedback'', ''review'', ''improve'']"

definition verification :: regex where
  "verification =
     words [''check'', ''verify'', ''right'', ''correct'', ''validate'', ''confirm'']"

definition advanced_exploration :: regex where
  "advanced_exploration =
     words [''alternative'', ''optimize'', ''best'', ''elegant'', ''edge'', ''consider'',
            ''deeper'']"

definition extract_surface_request :: "string \<Rightarrow> string" where
  "extract_surface_request query =
     (let query_lower = lower query
      in if search direct_solution query_lower then
           (if search lazy_seeking query_lower then ''Shortcut-seeking complete solution''
            else ''Request for complete solution'')
         else if search collaboration query_lower then ''Collaborative learning request''
         else if search verification query_lower then ''Verification/validation request''
         else if search advanced_exploration query_lower then ''Advanced exploration request''
         else if search genuine_learning query_lower then
           ''Request for understanding/learning''
         else ''General inquiry'')"

text \<open>
  The loop over the topics of \<open>learning_progress\<close> returns at the first topic whose
  lower-cased name occurs in the query.
\<close>

definition known_topic :: "string \<Rightarrow> UserMemory option \<Rightarrow> string option" where
  "known_topic query_lower memory =
     (case memory of
        None \<Rightarrow> None
      | Some m \<Rightarrow>
          find (\<lambda>topic. contains query_lower (lower topic)) (map fst (learning_progress m)))"

definition infer_deep_need :: "string \<Rightarrow> string \<Rightarrow> UserMemory option \<Rightarrow> string" where
  "infer_deep_need query surface memory =
     (let query_lower = lower query
      in case known_topic query_lower memory of
           Some topic \<Rightarrow> ''Mastery in '' @ topic
         | None \<Rightarrow>
             if (contains query_lower ''homework'' \<or> contains query_lower ''assignment''
                   \<or> contains query_lower ''exam'')
                 \<and> (contains query_lower ''write'' \<or> contains query_lower ''solve'')
             then ''Understanding the material deeply''
             else if list_ex (contains query_lower)
                       [''business'', ''startup'', ''company'', ''career'']
             then ''Strategic thinking and confidence''
             else if list_ex (contains query_lower)
                       [''life'', ''decision'', ''should i'', ''advice'']
             then ''Clarity, wisdom, and self-understanding''
             else if list_ex (contains query_lower)
                       [''algorithm'', ''code'', ''debug'', ''architecture'']
             then ''Problem-solving mastery''
             else ''Knowledge or skill development'')"

definition urgency_patterns :: "(string \<times> regex) list" where
  "urgency_patterns =
     [(''Time pressure'',
         words [''urgent'', ''deadline'', ''tomorrow'', ''tonight'', ''asap'', ''quickly'',
                ''fast'', ''hurry'', ''due'']),
      (''Fear/Anxiety'',
         words [''afraid'', ''worried'', ''scared'', ''don't know'', ''lost'', ''confused'',
                ''stuck'', ''help'', ''desperate'']),
      (''Laziness seeking'',
         words [''just give'', ''simply'', ''quick'', ''easy'', ''shortcut'', ''without'',
                ''don't want to'']),
      (''Genuine curiosity'',
         words [''why'', ''how'', ''curious'', ''wonder'', ''interested'',
                ''want to understand''])]"

fun motivation_scan :: "(string \<times> regex) list \<Rightarrow> string \<Rightarrow> string" where
  "motivation_scan [] query_lower = ''Desire for growth and improvement''"
| "motivation_scan ((pattern_name, pattern) # rest) query_lower =
     (if search pattern query_lower then
        (if pattern_name = ''Time pressure'' then ''Time pressure / Procrastination''
         else if pattern_name = ''Fear/Anxiety'' then ''Fear of failure / Lack of confidence''
         else if pattern_name = ''Laziness seeking'' then
           ''Convenience seeking / Avoiding effort''
         else if pattern_name = ''Genuine curiosity'' then
           ''Intrinsic motivation / Growth mindset''
         else motivation_scan rest query_lower)
      else motivation_scan rest query_lower)"

definition analyze_motivation :: "string \<Rightarrow> string \<Rightarrow> string" where
  "analyze_motivation query need = motivation_scan urgency_patterns (lower query)"

definition deception_patterns :: regex where
  "deception_patterns =
     words [''fake'', ''pretend'', ''trick'', ''manipulate'', ''deceive'', ''cheat'',
            ''fraud'', ''dishonest'']"

definition harm_patterns :: regex where
  "harm_patterns =
     words [''hurt'', ''damage'', ''attack'', ''harm'', ''destroy'', ''sabotage'',
            ''harmful'']"

definition bias_patterns :: regex where
  "bias_patterns =
     words [''racism'', ''sexism'', ''discriminat'', ''bigot'', ''hate'', ''prejudice'',
            ''stereotype'']"

definition pressure_patterns :: regex where
  "pressure_patterns =
     words [''must do'', ''force'', ''pressure'', ''coerce'', ''blackmail'', ''threaten'']"

definition asked_recently :: "string \<Rightarrow> UserMemory option \<Rightarrow> bool" where
  "asked_recently query_lower memory =
     (case memory of
        None \<Rightarrow> False
      | Some m \<Rightarrow>
          0 < length (request_history m)
          \<and> query_lower \<in> set (last_n 3 (request_history m)))"

definition detect_ethical_flags :: "string \<Rightarrow> string \<Rightarrow> UserMemory option \<Rightarrow> string list" where
  "detect_ethical_flags query surface memory =
     (let query_lower = lower query
      in (if contains (lower surface) ''complete solution''
              \<or> contains (lower surface) ''shortcut''
          then [''potential_dependency_creation''] else [])
         @ (if search deception_patterns query_lower then [''deception_intent''] else [])
         @ (if search harm_patterns query_lower then [''potential_harm''] else [])
         @ (if search bias_patterns query_lower then [''bias_or_discrimination''] else [])
         @ (if search pressure_patterns query_lower then [''coercion_pressure''] else [])
         @ (if asked_recently query_lower memory then [''repetitive_dependency''] else []))"

definition identify_growth_opportunity :: "string \<Rightarrow> string \<Rightarrow> string list \<Rightarrow> string" where
  "identify_growth_opportunity surface need flags =
     (if ''potential_dependency_creation'' \<in> set flags then
        ''Transform complete solution request into guided learning''
      else if need = ''Confidence and structured thinking'' then
        ''Build confidence through guided discovery''
      else if need = ''Clarity and self-understanding'' then
        ''Facilitate self-reflection and insight''
      else ''Develop problem-solving capability'')"

definition analyze :: "string \<Rightarrow> UserMemory option \<Rightarrow> Intent" where
  "analyze user_query memory =
     (let surface = extract_surface_request user_query;
          need = infer_deep_need user_query surface memory;
          motivation = analyze_motivation user_query need;
          flags = detect_ethical_flags user_query surface memory;
          growth_opp = identify_growth_opportunity surface need flags
      in \<lparr>surface_request = surface, deep_need = need, underlying_motivation = motivation,
          ethical_flags = flags, growth_opportunity = growth_opp\<rparr>)"

section \<open>Capability assessor\<close>

definition COMPETENCY_KEYWORDS :: "(string \<times> string list) list" where
  "COMPETENCY_KEYWORDS =
     [(''analysis'', [''analyze'', ''examine'', ''breakdown'', ''decompose'', ''understand why'']),
      (''application'', [''implement'', ''apply'', ''use'', ''create'', ''build'']),
      (''synthesis'', [''combine'', ''integrate'', ''design'', ''solve'', ''optimize'']),
      (''metacognition'', [''how do i learn'', ''my approach'', ''my method'', ''i've tried''])]"

definition assess_reasoning_quality :: "string \<Rightarrow> int" where
  "assess_reasoning_quality query =
     (let query_lower = lower query;
          s0 = 10;
          s1 = (if search (words [''because'', ''however'', ''although'', ''consider'',
                                  ''analyze'', ''depends on'', ''factors'']) query_lower
                then s0 + 15 else s0);
          s2 = (if search (words [''on the one hand'', ''alternatively'', ''versus'',
                                  ''compared to'', ''trade-off'']) query_lower
                then s1 + 5 else s1);
          s3 = (if search (words [''don't understand'', ''confused'', ''lost'', ''no idea''])
                     query_lower
                then s2 - 5 else s2)
      in max 0 (min 30 s3))"

definition assess_self_awareness :: "string \<Rightarrow> int" where
  "assess_self_awareness query =
     (let query_lower = lower query;
          s0 = 10;
          s1 = (if search (words [''i don't'', ''i can't'', ''i'm weak'', ''i'm struggling'',
                                  ''i need help'']) query_lower
                then s0 + 10 else s0);
          s2 = (if search (words [''tried'', ''attempted'', ''explored'', ''tested'',
                                  ''experimented'']) query_lower
                then s1 + 5 else s1);
          s3 = (if search (words [''how do i learn'', ''my approach'', ''my method'',
                                  ''how can i'']) query_lower
                then s2 + 5 else s2);
          s4 = (if search (words [''obviously'', ''clearly'', ''simple'', ''easy'',
                                  ''anyone knows'']) query_lower
                then s3 - 10 else s3)
      in max 0 (min 25 s4))"

definition assess_effort_shown :: "string \<Rightarrow> int" where
  "assess_effort_shown query =
     (let query_lower = lower query;
          s0 = 8;
          s1 = (if search (words [''i tried'', ''attempted'', ''worked on'', ''experimented'',
                                  ''tested'']) query_lower
                then s0 + 12 else s0);
          s2 = (if 40 < length (split query) then s1 + 5 else s1);
          s3 = (if 1 < count_list query (CHR ''?'') then s2 + 5 else s2);
          s4 = (if search (words [''just'', ''quick'', ''fast'', ''simple'',
                                  ''without effort'']) query_lower
                then s3 - 8 else s3)
      in max 0 (min 25 s4))"

definition analyze_learning_trajectory :: "UserMemory option \<Rightarrow> int" where
  "analyze_learning_trajectory memory =
     (case memory of
        None \<Rightarrow> 10
      | Some m \<Rightarrow>
          if capability_trend m = [] then 10
          else
            let recent_scores = last_n 5 (capability_trend m)
            in if 1 < length recent_scores then
                 (if hd recent_scores < last recent_scores then
                    10 + min 10 ((last recent_scores - hd recent_scores) div 5)
                  else if last recent_scores < hd recent_scores then max 0 (10 - 5)
                  else 10)
               else 10)"

definition calculate_capability_score :: "int \<Rightarrow> int \<Rightarrow> int \<Rightarrow> int \<Rightarrow> int" where
  "calculate_capability_score reasoning_quality self_awareness effort trajectory =
     reasoning_quality + self_awareness + effort + trajectory"

text \<open>The threshold chain of \<open>assess\<close> that turns the total score into a level.\<close>

definition determine_level :: "int \<Rightarrow> CapabilityLevel" where
  "determine_level s =
     (if s < 30 then BEGINNER else if s < 70 then INTERMEDIATE else ADVANCED)"

fun competency_strengths :: "(string \<times> string list) list \<Rightarrow> string \<Rightarrow> string list" where
  "competency_strengths [] query_lower = []"
| "competency_strengths ((competency, keywords) # rest) query_lower =
     (if list_ex (contains query_lower) keywords then
        (if competency = ''analysis'' then [''Strong analytical thinking'']
         else if competency = ''synthesis'' then [''Can integrate and synthesize ideas'']
         else if competency = ''metacognition'' then [''Self-aware learner'']
         else [])
      else [])
     @ competency_strengths rest query_lower"

text \<open>
  The loop over \<open>learning_progress\<close> appends to both lists; each entry is tagged here with
  the list it goes to (\<open>True\<close> for the strengths).
\<close>

fun progress_notes :: "(string \<times> string) list \<Rightarrow> string \<Rightarrow> (bool \<times> string) list" where
  "progress_notes [] query_lower = []"
| "progress_notes ((topic, lvl) # rest) query_lower =
     (if contains query_lower (lower topic) then
        (if lvl = ''beginner'' then [(False, ''Building foundational skills in '' @ topic)]
         else if lvl = ''improving'' then [(True, ''Making progress in '' @ topic)]
         else [])
      else [])
     @ progress_notes rest query_lower"

definition identify_competencies ::
  "string \<Rightarrow> int \<Rightarrow> UserMemory option \<Rightarrow> string list \<times> string list" where
  "identify_competencies query s memory =
     (let query_lower = lower query;
          notes = (case memory of
                     None \<Rightarrow> []
                   | Some m \<Rightarrow> progress_notes (learning_progress m) query_lower);
          strengths0 = competency_strengths COMPETENCY_KEYWORDS query_lower
                         @ map snd (filter fst notes);
          weaknesses0 = map snd (filter (\<lambda>n. \<not> fst n) notes)
      in if s < 30 then
           (strengths0, weaknesses0 @ [''Needs foundational knowledge and practice''])
         else if 70 < s then
           (strengths0 @ [''Demonstrates advanced understanding''], weaknesses0)
         else
           (strengths0 @ [''Has solid foundational knowledge''],
            weaknesses0 @ [''Can deepen understanding of nuanced concepts'']))"

definition generate_comprehensive_evidence :: "int \<Rightarrow> int \<Rightarrow> int \<Rightarrow> int \<Rightarrow> string" where
  "generate_comprehensive_evidence reasoning awareness effort s =
     ''Assessment based on: reasoning quality ('' @ str_int reasoning @ ''/30), ''
     @ ''self-awareness ('' @ str_int awareness @ ''/25), effort shown (''
     @ str_int effort @ ''/25), ''
     @ ''resulting in overall capability score of '' @ str_int s @ ''/100''"

definition assess :: "string \<Rightarrow> UserMemory option \<Rightarrow> CapabilityAssessment" where
  "assess user_query memory =
     (let reasoning_quality = assess_reasoning_quality user_query;
          self_awareness = assess_self_awareness user_query;
          effort_and_thought = assess_effort_shown user_query;
          learning_trajectory = analyze_learning_trajectory memory;
          s = calculate_capability_score reasoning_quality self_awareness effort_and_thought
                learning_trajectory;
          sw = identify_competencies user_query s memory
      in \<lparr>level = determine_level s, score = s, strengths = fst sw, weaknesses = snd sw,
          evidence = generate_comprehensive_evidence reasoning_quality self_awareness
                       effort_and_thought s\<rparr>)"

section \<open>Ethical guardian\<close>

text \<open>
  \<open>_check_dependency\<close> compares a count with \<open>interaction_count * 0.6\<close> in floating point.
  The outcome of that comparison is a parameter \<open>exceeds\<close> of the model (\<open>exceeds c n\<close>
  stands for \<open>c > n * 0.6\<close>): whatever is proved below holds for every outcome of it.
\<close>

definition check_harm :: "Intent \<Rightarrow> bool" where
  "check_harm intent = (''potential_harm'' \<in> set (ethical_flags intent))"

definition check_manipulation :: "Intent \<Rightarrow> bool" where
  "check_manipulation intent = (''deception_intent'' \<in> set (ethical_flags intent))"

definition shortcut_pattern :: "UserMemory \<Rightarrow> int" where
  "shortcut_pattern m =
     int (length (filter (\<lambda>r. contains (lower r) ''shortcut'' \<or> contains (lower r) ''write'')
                         (request_history m)))"

definition check_dependency ::
  "(int \<Rightarrow> int \<Rightarrow> bool) \<Rightarrow> Intent \<Rightarrow> UserMemory option \<Rightarrow> bool" where
  "check_dependency exceeds intent memory =
     (let has_dependency_flag = (''potential_dependency_creation'' \<in> set (ethical_flags intent))
      in if ''repetitive_dependency'' \<in> set (ethical_flags intent) then True
         else case memory of
                None \<Rightarrow> has_dependency_flag
              | Some m \<Rightarrow>
                  if 10 < interaction_count m
                       \<and> exceeds (shortcut_pattern m) (interaction_count m)
                  then True
                  else has_dependency_flag)"

definition check_dignity :: "Intent \<Rightarrow> bool" where
  "check_dignity intent =
     list_ex (\<lambda>flag. flag \<in> set (ethical_flags intent))
       [''coercion_pressure'', ''violation_dignity'']"

definition check_bias :: "Intent \<Rightarrow> bool" where
  "check_bias intent = (''bias_or_discrimination'' \<in> set (ethical_flags intent))"

definition generate_redirect :: "Intent \<Rightarrow> string list \<Rightarrow> string" where
  "generate_redirect intent cs =
     (if ''Direct harm potential'' \<in> set cs then
        ''I cannot assist with this request as it may cause harm. ''
        @ ''However, I'd like to help you achieve your underlying goal ''
        @ ''in a way that benefits everyone involved. What's the positive ''
        @ ''outcome you're trying to reach?''
      else if ''Manipulation or deception'' \<in> set cs then
        ''I can't help with deception, but I absolutely can help you ''
        @ ''communicate what you need more effectively and honestly. ''
        @ ''Authentic communication actually works better. What's really ''
        @ ''going on here?''
      else if ''Creates unhealthy dependency'' \<in> set cs then
        ''I notice you might be building a pattern of asking for solutions ''
        @ ''rather than learning. That would actually make you weaker, not stronger. ''
        @ ''Let me help you become independent and capable instead. Ready?''
      else if ''Violates human dignity'' \<in> set cs then
        ''This request involves pressure or coercion, which I can't support. ''
        @ ''But I can help you find a way to get what you need that respects ''
        @ ''everyone's dignity and autonomy. Let's explore that together.''
      else if ''Contains harmful bias or discrimination'' \<in> set cs then
        ''I notice this request involves stereotyping or discrimination. ''
        @ ''Instead, let me help you see the fuller picture and connect with ''
        @ ''the real humanity in this situation. That's where real solutions come from.''
      else
        ''I cannot fulfill this request as stated, but I can help you find a better path forward.'')"

definition evaluate ::
  "(int \<Rightarrow> int \<Rightarrow> bool) \<Rightarrow> Intent \<Rightarrow> UserMemory option \<Rightarrow> EthicalVerdict" where
  "evaluate exceeds intent memory =
     (let harm_check = check_harm intent;
          manipulation_check = check_manipulation intent;
          dependency_check = check_dependency exceeds intent memory;
          dignity_check = check_dignity intent;
          bias_check = check_bias intent;
          cs = (if harm_check then [''Direct harm potential''] else [])
               @ (if manipulation_check then [''Manipulation or deception''] else [])
               @ (if dependency_check then [''Creates unhealthy dependency''] else [])
               @ (if dignity_check then [''Violates human dignity''] else [])
               @ (if bias_check then [''Contains harmful bias or discrimination''] else []);
          must_stop = (harm_check \<or> manipulation_check \<or> dignity_check \<or> bias_check);
          proceed = (\<not> must_stop)
      in \<lparr>is_harmful = harm_check, is_manipulative = manipulation_check,
          creates_dependency = dependency_check, violates_dignity = dignity_check,
          concerns = cs, should_proceed = proceed,
          redirect_suggestion =
            (if \<not> proceed then Some (generate_redirect intent cs) else None)\<rparr>)"

section \<open>Growth response designer\<close>

definition BEGINNER_TEMPLATES :: "(string \<times> string) list" where
  "BEGINNER_TEMPLATES =
     [(''fear'',
       ''I can see you're worried about this, and that's completely natural. ''
       @ ''Let's break this down into tiny, manageable pieces so you can build real confidence.''),
      (''laziness'',
       ''I get it - deadlines are stressful. But here's the thing: doing it yourself, ''
       @ ''even slowly, will actually make you feel way better than taking a shortcut.''),
      (''genuine'',
       ''Great question! You're asking the right things. ''
       @ ''Let me help you build a real foundation here.'')]"

definition INTERMEDIATE_TEMPLATES :: "(string \<times> string) list" where
  "INTERMEDIATE_TEMPLATES =
     [(''fear'',
       ''You've got more capability here than you think. ''
       @ ''Let me show you how to find the solution yourself.''),
      (''laziness'',
       ''You're better than shortcuts. ''
       @ ''Let's find an efficient way that still builds your skills.''),
      (''genuine'',
       ''Excellent thinking. You're ready to develop mastery. ''
       @ ''Let me challenge you appropriately.'')]"

definition ADVANCED_TEMPLATES :: "(string \<times> string) list" where
  "ADVANCED_TEMPLATES =
     [(''verification'',
       ''Your thinking is solid. ''
       @ ''Let me help you verify it rigorously and explore edge cases.''),
      (''optimization'',
       ''You understand the fundamentals. ''
       @ ''Now let's explore optimal solutions and elegant approaches.''),
      (''depth'',
       ''You're at a level where the real growth comes from ''
       @ ''wrestling with complexity and nuance.'')]"

text \<open>\<open>d.get(k, default)\<close> and \<open>d[k]\<close> for a key that the dictionary has.\<close>

definition dict_get :: "(string \<times> 'v) list \<Rightarrow> string \<Rightarrow> 'v \<Rightarrow> 'v" where
  "dict_get d k dflt = (case map_of d k of Some v \<Rightarrow> v | None \<Rightarrow> dflt)"

definition dict_item :: "(string \<times> 'v) list \<Rightarrow> string \<Rightarrow> 'v" where
  "dict_item d k = the (map_of d k)"

definition extract_motivation_tone :: "string \<Rightarrow> string" where
  "extract_motivation_tone motivation =
     (let motivation_lower = lower motivation
      in if contains motivation_lower ''fear'' \<or> contains motivation_lower ''anxiety''
         then ''fear''
         else if contains motivation_lower ''lazy'' \<or> contains motivation_lower ''shortcut''
                   \<or> contains motivation_lower ''convenience''
         then ''laziness''
         else if contains motivation_lower ''pressure'' \<or> contains motivation_lower ''time''
         then ''urgency''
         else if contains motivation_lower ''growth''
                   \<or> contains motivation_lower ''improvement''
         then ''genuine''
         else ''neutral'')"

text \<open>
  \<open>verdict.redirect_suggestion or "I need to pause here."\<close>: the fixed sentence stands in
  for a missing redirect and for an empty one.
\<close>

definition create_redirect_response :: "Intent \<Rightarrow> EthicalVerdict \<Rightarrow> GrowthResponse" where
  "create_redirect_response intent verdict =
     \<lparr>response_text =
        (case redirect_suggestion verdict of
           None \<Rightarrow> ''I need to pause here.''
         | Some r \<Rightarrow> if r = [] then ''I need to pause here.'' else r),
      reasoning_log =
        ''Ethical concerns detected: '' @ join '', '' (concerns verdict) @ ''. ''
        @ ''Providing ethical redirect to help user find better path.'',
      capability_addressed = ''Ethical decision-making and values'',
      expected_outcome = ''User reflects on their approach and finds ethical alternative'',
      follow_up_suggestions =
        [''Tell me more about what you're trying to achieve'',
         ''What would a version of this that you'd be proud of look like?'',
         ''How can I help you reach your goal ethically?''],
      independence_score_impact = ''maintains (and strengthens values)''\<rparr>"

definition design_for_beginner ::
  "Intent \<Rightarrow> CapabilityAssessment \<Rightarrow> string \<Rightarrow> UserMemory option \<Rightarrow> GrowthResponse" where
  "design_for_beginner intent capability motivation_tone memory =
     (let template = dict_get BEGINNER_TEMPLATES motivation_tone
                       (dict_get BEGINNER_TEMPLATES ''genuine''
                          ''I can see you're working on this.'');
          text =
            template
            @ (
          ''\<newline>''
          @ ''\<newline>''
          @ ''**Let's see your actual situation:**\<newline>'')
            @ (if strengths capability \<noteq> [] then join '', '' (strengths capability)
               else ''You're taking the initiative to learn'')
            @ (
          ''\<newline>''
          @ ''\<newline>''
          @ ''**What we need to work on together:**\<newline>'')
            @ (if weaknesses capability \<noteq> [] then hd (weaknesses capability)
               else ''Building core understanding'')
            @ (
          ''\<newline>''
          @ ''\<newline>''
          @ ''**Here's our game plan:**\<newline>''
          @ ''\<newline>''
          @ ''1. **Concept Building** - I'll explain the key ideas simply\<newline>''
          @ ''2. **Example Walk-Through** - We'll work through a real example together  \<newline>''
          @ ''3. **Your Turn** - You'll try something similar with me coaching\<newline>''
          @ ''4. **Reflection** - We'll review what you learned\<newline>''
          @ ''\<newline>''
          @ ''This way, you won't just solve this problem - you'll be able to handle similar ones on your own.\<newline>''
          @ ''\<newline>''
          @ ''**Ready?** What's the part that confuses you most?\<newline>'')
      in \<lparr>response_text = strip text,
          reasoning_log =
            ''Beginner level ('' @ str_int (score capability) @ ''/100). Motivation: ''
            @ motivation_tone @ ''. ''
            @ ''Using foundational teaching with '' @ motivation_tone @ ''-aware approach. ''
            @ ''Growth opportunity: '' @ growth_opportunity intent,
          capability_addressed =
            (if weaknesses capability \<noteq> [] then hd (weaknesses capability)
             else ''Core foundations''),
          expected_outcome =
            ''User gains real understanding + confidence to solve similar problems'',
          follow_up_suggestions =
            [''Show me your attempt after my explanation'',
             ''Ask about any confusing parts'',
             ''Try a similar problem to test yourself''],
          independence_score_impact = ''increases significantly''\<rparr>)"

definition design_for_intermediate ::
  "Intent \<Rightarrow> CapabilityAssessment \<Rightarrow> string \<Rightarrow> UserMemory option \<Rightarrow> GrowthResponse" where
  "design_for_intermediate intent capability motivation_tone memory =
     (let template = dict_get INTERMEDIATE_TEMPLATES motivation_tone
                       (dict_item INTERMEDIATE_TEMPLATES ''genuine'');
          text =
            template
            @ (
          ''\<newline>''
          @ ''\<newline>''
          @ ''**I notice:** '')
            @ (if strengths capability \<noteq> [] then hd (strengths capability)
               else ''You have solid foundational knowledge'')
            @ (
          ''\<newline>''
          @ ''\<newline>''
          @ ''**Let's think strategically:**\<newline>''
          @ ''\<newline>''
          @ ''1. **Core Question** - What's the real challenge here? (Not just the surface)\<newline>''
          @ ''2. **Your Approach** - What have you tried? What approaches could work?\<newline>''
          @ ''3. **Testing** - How would you verify if your solution is right?\<newline>''
          @ ''4. **Refinement** - What would make it better/more elegant?\<newline>''
          @ ''\<newline>''
          @ ''**Your task:**\<newline>''
          @ ''- Work through these questions\<newline>''
          @ ''- Share your reasoning with me\<newline>''
          @ ''- We'll iterate until you've got it solid\<newline>''
          @ ''\<newline>''
          @ ''**Why this way?** You have the skills. You just need to organize your thinking at a deeper level. That's how you move from competent to confident.\<newline>''
          @ ''\<newline>''
          @ ''What insights do you have so far?\<newline>'')
      in \<lparr>response_text = strip text,
          reasoning_log =
            ''Intermediate level ('' @ str_int (score capability) @ ''/100). Motivation: ''
            @ motivation_tone @ ''. ''
            @ ''Using strategic guidance + reflection prompts. ''
            @ ''Goal: Develop independent problem-solving confidence.'',
          capability_addressed = ''Strategic thinking and problem-solving methodology'',
          expected_outcome = ''User develops deeper understanding and structured approach'',
          follow_up_suggestions =
            [''Share your approach and reasoning'',
             ''Ask for feedback on your thinking'',
             ''Explore alternative solutions'',
             ''Build toward mastery''],
          independence_score_impact = ''increases significantly''\<rparr>)"

definition design_for_advanced ::
  "Intent \<Rightarrow> CapabilityAssessment \<Rightarrow> string \<Rightarrow> UserMemory option \<Rightarrow> GrowthResponse" where
  "design_for_advanced intent capability motivation_tone memory =
     (let surface_lower = lower (surface_request intent);
          template =
            (if contains surface_lower ''verify'' then
               ''Your analysis looks thoughtful. Let's stress-test it.''
             else if contains surface_lower ''optim'' \<or> contains surface_lower ''better'' then
               ''You understand the basics well. Now let's pursue elegance.''
             else
               ''You're at a level where the real growth comes from wrestling with complexity.'');
          text =
            template
            @ (
          ''\<newline>''
          @ ''\<newline>''
          @ ''**Beyond the obvious:**\<newline>''
          @ ''\<newline>''
          @ ''1. **Assumptions** - What are you assuming? Why? What if they're wrong?\<newline>''
          @ ''2. **Edge Cases** - What breaks your solution? How would you handle those?\<newline>''
          @ ''3. **Trade-offs** - What's the cost of your approach? Any alternatives?\<newline>''
          @ ''4. **Deeper Why** - Why does this matter? What's the principle here?\<newline>''
          @ ''5. **Mastery** - What would an expert do? How would they think about this?\<newline>''
          @ ''\<newline>''
          @ ''**Challenge yourself with:**\<newline>''
          @ ''- Can you find three different valid approaches?\<newline>''
          @ ''- Which is most elegant and why?\<newline>''
          @ ''- How would you explain this to someone very smart but in a different field?\<newline>''
          @ ''- What have you learned that applies beyond this specific problem?\<newline>''
          @ ''\<newline>''
          @ ''This is where real mastery comes from - not from having answers, but from understanding the space deeply enough to generate excellent solutions.\<newline>''
          @ ''\<newline>''
          @ ''What's your thinking so far?\<newline>'')
      in \<lparr>response_text = strip text,
          reasoning_log =
            ''Advanced level ('' @ str_int (score capability) @ ''/100). Motivation: ''
            @ motivation_tone @ ''. ''
            @ ''Using Socratic method to deepen critical thinking. ''
            @ ''Goal: Move toward independent mastery and intellectual leadership.'',
          capability_addressed =
            ''Advanced problem-solving, systems thinking, and intellectual independence'',
          expected_outcome =
            ''User achieves deeper insight, explores multiple perspectives, develops mastery'',
          follow_up_suggestions =
            [''Explore multiple solution paths'',
             ''Challenge your own assumptions'',
             ''Seek elegant and optimal solutions'',
             ''Build toward intellectual leadership in this area''],
          independence_score_impact =
            ''increases (approaching and building beyond full independence)''\<rparr>)"

text \<open>
  \<open>create\<close> returns the response together with the memory as the call leaves it: the
  caller's memory object is updated in place on the proceeding path and not touched on
  the blocked one.
\<close>

definition create ::
  "Intent \<Rightarrow> CapabilityAssessment \<Rightarrow> EthicalVerdict \<Rightarrow> UserMemory option \<Rightarrow> timestamp
     \<Rightarrow> GrowthResponse \<times> UserMemory option" where
  "create intent capability ethical_verdict memory now =
     (if \<not> should_proceed ethical_verdict then
        (create_redirect_response intent ethical_verdict, memory)
      else
        let motivation_tone = extract_motivation_tone (underlying_motivation intent);
            response =
              (if level capability = BEGINNER then
                 design_for_beginner intent capability motivation_tone memory
               else if level capability = INTERMEDIATE then
                 design_for_intermediate intent capability motivation_tone memory
               else design_for_advanced intent capability motivation_tone memory)
        in (response,
            case memory of
              None \<Rightarrow> None
            | Some m \<Rightarrow>
                Some (m\<lparr>interaction_count := interaction_count m + 1,
                        capability_trend := capability_trend m @ [score capability],
                        request_history := request_history m @ [surface_request intent],
                        last_interaction := Some now\<rparr>)))"

section \<open>The core system\<close>

text \<open>
  The state of an \<open>MVG\<close> object is its table of user memories; its four components hold
  nothing that changes. \<open>process_request\<close> reads the clock twice, once inside \<open>create\<close> and
  once for the entry of the conversation context. Its result is the returned dictionary
  without the key \<open>reasoning_log\<close>, a rendering of the other values between rule lines.
\<close>

record MVG =
  user_memories :: "string \<rightharpoonup> UserMemory"
  version :: string
  covenant_version :: string

definition MVG_init :: MVG where
  "MVG_init =
     \<lparr>user_memories = Map.empty, version = ''2.0'',
      covenant_version = ''Universal Covenant v1.0 + ML Enhancement''\<rparr>"

definition new_user_memory :: "string \<Rightarrow> UserMemory" where
  "new_user_memory uid =
     \<lparr>user_id = uid, interaction_count = 0, request_history = [], capability_trend = [],
      topic_expertise = [], learning_progress = [], last_interaction = None,
      conversation_context = []\<rparr>"

definition get_or_create_user_memory :: "MVG \<Rightarrow> string \<Rightarrow> UserMemory \<times> MVG" where
  "get_or_create_user_memory mvg uid =
     (case user_memories mvg uid of
        None \<Rightarrow>
          (new_user_memory uid,
           mvg\<lparr>user_memories := (user_memories mvg)(uid \<mapsto> new_user_memory uid)\<rparr>)
      | Some m \<Rightarrow> (m, mvg))"

record Result =
  response :: string
  meta_user_id :: string
  interaction_number :: int
  intent_surface :: string
  intent_deep_need :: string
  intent_motivation :: string
  intent_growth_opportunity :: string
  assessment_level :: string
  assessment_score :: int
  assessment_trend :: string
  assessment_strengths :: "string list"
  assessment_weaknesses :: "string list"
  evaluation_should_proceed :: bool
  evaluation_concerns :: "string list"
  meta_expected_outcome :: string
  meta_independence_impact :: string

definition trend_label :: "int list \<Rightarrow> string" where
  "trend_label trend =
     (if 1 < length trend \<and> trend ! (length trend - 2) < last trend then ''improving''
      else ''stable'')"

definition process_request ::
  "(int \<Rightarrow> int \<Rightarrow> bool) \<Rightarrow> MVG \<Rightarrow> string \<Rightarrow> string \<Rightarrow> timestamp \<Rightarrow> timestamp
     \<Rightarrow> Result \<times> MVG" where
  "process_request exceeds mvg user_query uid now_create now_context =
     (let (memory, mvg1) = get_or_create_user_memory mvg uid;
          intent = analyze user_query (Some memory);
          capability = assess user_query (Some memory);
          ethical_verdict = evaluate exceeds intent (Some memory);
          (growth_response, updated) =
            create intent capability ethical_verdict (Some memory) now_create;
          memory1 = (case updated of None \<Rightarrow> memory | Some m \<Rightarrow> m);
          memory2 = memory1\<lparr>conversation_context :=
                      conversation_context memory1
                      @ [\<lparr>ctx_query = user_query,
                           ctx_response = response_text growth_response,
                           ctx_capability_level = level_value (level capability),
                           ctx_capability_score = score capability,
                           ctx_timestamp = now_context\<rparr>]\<rparr>
      in (\<lparr>response = response_text growth_response,
           meta_user_id = uid,
           interaction_number = interaction_count memory2 + 1,
           intent_surface = surface_request intent,
           intent_deep_need = deep_need intent,
           intent_motivation = underlying_motivation intent,
           intent_growth_opportunity = growth_opportunity intent,
           assessment_level = level_value (level capability),
           assessment_score = score capability,
           assessment_trend = trend_label (capability_trend memory2),
           assessment_strengths = strengths capability,
           assessment_weaknesses = weaknesses capability,
           evaluation_should_proceed = should_proceed ethical_verdict,
           evaluation_concerns = concerns ethical_verdict,
           meta_expected_outcome = expected_outcome growth_response,
           meta_independence_impact = independence_score_impact growth_response\<rparr>,
          mvg1\<lparr>user_memories := (user_memories mvg1)(uid \<mapsto> memory2)\<rparr>))"

text \<open>
  A session is a list of requests \<open>(query, user, clock, clock)\<close> served one after the
  other by the same object, as the demonstration loop does; \<open>run\<close> collects the results.
\<close>

type_synonym request = "string \<times> string \<times> timestamp \<times> timestamp"

fun run :: "(int \<Rightarrow> int \<Rightarrow> bool) \<Rightarrow> MVG \<Rightarrow> request list \<Rightarrow> Result list \<times> MVG" where
  "run exceeds mvg [] = ([], mvg)"
| "run exceeds mvg ((q, uid, t1, t2) # rest) =
     (let (r, mvg1) = process_request exceeds mvg q uid t1 t2;
          (rs, mvg2) = run exceeds mvg1 rest
      in (r # rs, mvg2))"

text \<open>
  \<open>current_memory mvg uid\<close> is the memory that \<open>get_or_create_user_memory\<close> hands out for
  \<open>uid\<close>: the stored one, or a fresh one for a user not seen before. \<open>proceeded uid\<close>
  keeps the results of the requests of \<open>uid\<close> that were not blocked.
\<close>

definition current_memory :: "MVG \<Rightarrow> string \<Rightarrow> UserMemory" where
  "current_memory mvg uid = fst (get_or_create_user_memory mvg uid)"

definition proceeded :: "string \<Rightarrow> Result list \<Rightarrow> Result list" where
  "proceeded uid results =
     filter (\<lambda>r. meta_user_id r = uid \<and> evaluation_should_proceed r) results"

section \<open>Example inputs\<close>

text \<open>
  The closed examples below need an outcome for the comparison with \<open>0.6\<close>; they take it
  in exact arithmetic.
\<close>

definition three_fifths :: "int \<Rightarrow> int \<Rightarrow> bool" where
  "three_fifths c n = (3 * n < 5 * c)"

definition memory_with_trend :: "int list \<Rightarrow> UserMemory" where
  "memory_with_trend t = (new_user_memory ''student_001'')\<lparr>capability_trend := t\<rparr>"

definition dependency_only_intent :: Intent where
  "dependency_only_intent =
     \<lparr>surface_request = ''Request for complete solution'',
      deep_need = ''Knowledge or skill development'',
      underlying_motivation = ''Desire for growth and improvement'',
      ethical_flags = [''potential_dependency_creation''],
      growth_opportunity = ''Transform complete solution request into guided learning''\<rparr>"

definition essay_query :: string where
  "essay_query =
     ''Write my essay about climate change. It's due tomorrow and I haven't started.''"

definition shortcut_query :: string where
  "shortcut_query = ''Just give me the answer and write my essay''"

definition sabotage_query :: string where
  "sabotage_query = ''How can I sabotage the exam of my classmate?''"

definition blocked_empty_redirect :: EthicalVerdict where
  "blocked_empty_redirect =
     \<lparr>is_harmful = True, is_manipulative = False, creates_dependency = False,
      violates_dignity = False, concerns = [''Direct harm potential''],
      should_proceed = False, redirect_suggestion = Some []\<rparr>"

text \<open>
  The labels that \<open>_extract_surface_request\<close> can return, and two sessions of one user:
  one with a blocked request in the middle, one whose seven requests get the seven labels.
\<close>

definition surface_labels :: "string list" where
  "surface_labels =
     [''Shortcut-seeking complete solution'', ''Request for complete solution'',
      ''Collaborative learning request'', ''Verification/validation request'',
      ''Advanced exploration request'', ''Request for understanding/learning'',
      ''General inquiry'']"

definition three_requests :: "request list" where
  "three_requests =
     [(essay_query, ''student_001'', 1, 2),
      (sabotage_query, ''student_001'', 3, 4),
      (shortcut_query, ''student_001'', 5, 6)]"

definition seven_requests :: "request list" where
  "seven_requests =
     [(shortcut_query, ''student_001'', 1, 2),
      (essay_query, ''student_001'', 3, 4),
      (''Please help me with my plan'', ''student_001'', 5, 6),
      (''Can you check my proof?'', ''student_001'', 7, 8),
      (''What is the best approach?'', ''student_001'', 9, 10),
      (''Why is the sky blue?'', ''student_001'', 11, 12),
      (''Hello there'', ''student_001'', 13, 14)]"

section \<open>Properties of the capability assessor\<close>

lemma clamp_range: "(0::int) \<le> h \<Longrightarrow> 0 \<le> max 0 (min h x) \<and> max 0 (min h x) \<le> h"
  by simp

lemma reasoning_quality_range:
  "0 \<le> assess_reasoning_quality q \<and> assess_reasoning_quality q \<le> 30"
  unfolding assess_reasoning_quality_def Let_def by (rule clamp_range) simp

lemma self_awareness_range:
  "0 \<le> assess_self_awareness q \<and> assess_self_awareness q \<le> 25"
  unfolding assess_self_awareness_def Let_def by (rule clamp_range) simp

lemma effort_shown_range:
  "0 \<le> assess_effort_shown q \<and> assess_effort_shown q \<le> 25"
  unfolding assess_effort_shown_def Let_def by (rule clamp_range) simp

lemma length_last_n: "length (last_n n xs) = min n (length xs)"
  by (simp add: last_n_def)

lemma last_last_n: "xs \<noteq> [] \<Longrightarrow> 0 < n \<Longrightarrow> last (last_n n xs) = last xs"
  by (simp add: last_n_def)

lemma hd_last_n: "xs \<noteq> [] \<Longrightarrow> 0 < n \<Longrightarrow> hd (last_n n xs) = xs ! (length xs - n)"
  by (simp add: last_n_def hd_drop_conv_nth)

lemma improvement_range:
  fixes f l :: int
  assumes "f < l"
  shows "10 \<le> 10 + min 10 ((l - f) div 5) \<and> 10 + min 10 ((l - f) div 5) \<le> 20"
proof -
  from assms have "0 \<le> (l - f) div 5" by simp
  then show ?thesis by simp
qed

lemma learning_trajectory_range:
  "0 \<le> analyze_learning_trajectory mo \<and> analyze_learning_trajectory mo \<le> 20"
proof (cases mo)
  case None
  then show ?thesis by (simp add: analyze_learning_trajectory_def)
next
  case (Some m)
  show ?thesis
    using improvement_range [of "hd (last_n 5 (capability_trend m))"
        "last (last_n 5 (capability_trend m))"]
    by (simp add: Some analyze_learning_trajectory_def Let_def)
qed

lemma trajectory_short:
  "length (capability_trend m) \<le> 1 \<Longrightarrow> analyze_learning_trajectory (Some m) = 10"
  by (simp add: analyze_learning_trajectory_def Let_def length_last_n)

lemma trajectory_long:
  assumes "1 < length (capability_trend m)"
  shows "analyze_learning_trajectory (Some m) =
          (let f = capability_trend m ! (length (capability_trend m) - 5);
               l = last (capability_trend m)
           in if f < l then 10 + min 10 ((l - f) div 5) else if l < f then 5 else 10)"
proof -
  from assms have ne: "capability_trend m \<noteq> []" by auto
  from assms have "1 < length (last_n 5 (capability_trend m))"
    by (simp add: length_last_n)
  then show ?thesis
    by (simp add: analyze_learning_trajectory_def Let_def ne hd_last_n last_last_n)
qed

lemma score_assess:
  "score (assess q mo) = assess_reasoning_quality q + assess_self_awareness q
      + assess_effort_shown q + analyze_learning_trajectory mo"
  by (simp add: assess_def Let_def calculate_capability_score_def)

lemma level_assess: "level (assess q mo) = determine_level (score (assess q mo))"
  by (simp add: assess_def Let_def)

text \<open>
  Claim C2. For every query and optional memory, \<open>assess\<close> returns the level beginner
  exactly when the total score is below 30, intermediate exactly when it is at least 30
  and below 70, and advanced exactly when it is at least 70; the totals 29, 30, 69 and 70
  are classified as beginner, intermediate, intermediate and advanced.
\<close>

theorem assess_level_thresholds:
  "(level (assess q mo) = BEGINNER) = (score (assess q mo) < 30)
   \<and> (level (assess q mo) = INTERMEDIATE)
       = (30 \<le> score (assess q mo) \<and> score (assess q mo) < 70)
   \<and> (level (assess q mo) = ADVANCED) = (70 \<le> score (assess q mo))
   \<and> level (assess q mo) = determine_level (score (assess q mo))
   \<and> determine_level 29 = BEGINNER \<and> determine_level 30 = INTERMEDIATE
   \<and> determine_level 69 = INTERMEDIATE \<and> determine_level 70 = ADVANCED"
  by (simp add: level_assess determine_level_def)

text \<open>
  Claim C3. For every query and optional memory, the overall score of the assessment is
  the plain sum of the four sub-scores; reasoning quality lies in 0..30, self-awareness in
  0..25, effort in 0..25 and the learning trajectory in 0..20, so the overall score lies
  in 0..100.
\<close>

theorem assess_score_is_bounded_sum:
  "score (assess q mo) = assess_reasoning_quality q + assess_self_awareness q
      + assess_effort_shown q + analyze_learning_trajectory mo
   \<and> 0 \<le> assess_reasoning_quality q \<and> assess_reasoning_quality q \<le> 30
   \<and> 0 \<le> assess_self_awareness q \<and> assess_self_awareness q \<le> 25
   \<and> 0 \<le> assess_effort_shown q \<and> assess_effort_shown q \<le> 25
   \<and> 0 \<le> analyze_learning_trajectory mo \<and> analyze_learning_trajectory mo \<le> 20
   \<and> 0 \<le> score (assess q mo) \<and> score (assess q mo) \<le> 100"
  using reasoning_quality_range [of q] self_awareness_range [of q] effort_shown_range [of q]
    learning_trajectory_range [of mo]
  by (simp add: score_assess)

text \<open>
  Claim C8. The learning-trajectory sub-score is 10 when there is no memory, when
  \<open>capability_trend\<close> is empty and when it holds exactly one score. Otherwise, with \<open>f\<close>
  the earliest and \<open>l\<close> the most recent of the last five recorded scores, it is
  \<open>10 + min 10 ((l - f) div 5)\<close> when \<open>l > f\<close>, 5 when \<open>l < f\<close> and 10 when they are
  equal. The result always lies in 0..20.
\<close>

theorem learning_trajectory_value:
  "analyze_learning_trajectory None = 10
   \<and> (capability_trend m = [] \<longrightarrow> analyze_learning_trajectory (Some m) = 10)
   \<and> (length (capability_trend m) = 1 \<longrightarrow> analyze_learning_trajectory (Some m) = 10)
   \<and> (1 < length (capability_trend m) \<longrightarrow>
        analyze_learning_trajectory (Some m) =
          (let f = hd (last_n 5 (capability_trend m)); l = last (last_n 5 (capability_trend m))
           in if f < l then 10 + min 10 ((l - f) div 5) else if l < f then 5 else 10)
        \<and> hd (last_n 5 (capability_trend m))
            = capability_trend m ! (length (capability_trend m) - 5)
        \<and> last (last_n 5 (capability_trend m)) = last (capability_trend m))
   \<and> 0 \<le> analyze_learning_trajectory mo \<and> analyze_learning_trajectory mo \<le> 20"
proof -
  have a: "analyze_learning_trajectory None = 10"
    by (simp add: analyze_learning_trajectory_def)
  have b: "capability_trend m = [] \<longrightarrow> analyze_learning_trajectory (Some m) = 10"
    by (simp add: trajectory_short)
  have c: "length (capability_trend m) = 1 \<longrightarrow> analyze_learning_trajectory (Some m) = 10"
    by (simp add: trajectory_short)
  have d: "1 < length (capability_trend m) \<longrightarrow>
        analyze_learning_trajectory (Some m) =
          (let f = hd (last_n 5 (capability_trend m)); l = last (last_n 5 (capability_trend m))
           in if f < l then 10 + min 10 ((l - f) div 5) else if l < f then 5 else 10)
        \<and> hd (last_n 5 (capability_trend m))
            = capability_trend m ! (length (capability_trend m) - 5)
        \<and> last (last_n 5 (capability_trend m)) = last (capability_trend m)"
  proof
    assume len: "1 < length (capability_trend m)"
    then have ne: "capability_trend m \<noteq> []" by auto
    show "analyze_learning_trajectory (Some m) =
          (let f = hd (last_n 5 (capability_trend m)); l = last (last_n 5 (capability_trend m))
           in if f < l then 10 + min 10 ((l - f) div 5) else if l < f then 5 else 10)
        \<and> hd (last_n 5 (capability_trend m))
            = capability_trend m ! (length (capability_trend m) - 5)
        \<and> last (last_n 5 (capability_trend m)) = last (capability_trend m)"
      using trajectory_long [OF len] by (simp add: Let_def ne hd_last_n last_last_n)
  qed
  from a b c d learning_trajectory_range [of mo] show ?thesis by blast
qed

theorem learning_trajectory_value_witness:
  "analyze_learning_trajectory (Some (memory_with_trend [])) = 10
   \<and> analyze_learning_trajectory (Some (memory_with_trend [38])) = 10
   \<and> analyze_learning_trajectory (Some (memory_with_trend [90, 20, 30, 38, 30, 47])) = 15
   \<and> analyze_learning_trajectory (Some (memory_with_trend [20, 95])) = 20
   \<and> analyze_learning_trajectory (Some (memory_with_trend [38, 30])) = 5
   \<and> analyze_learning_trajectory (Some (memory_with_trend [38, 60, 38])) = 10"
  using learning_trajectory_value [of "memory_with_trend []"]
    learning_trajectory_value [of "memory_with_trend [38]"]
    learning_trajectory_value [of "memory_with_trend [90, 20, 30, 38, 30, 47]"]
    learning_trajectory_value [of "memory_with_trend [20, 95]"]
    learning_trajectory_value [of "memory_with_trend [38, 30]"]
    learning_trajectory_value [of "memory_with_trend [38, 60, 38]"]
  by (simp add: memory_with_trend_def new_user_memory_def last_n_def)

section \<open>Properties of the ethical guardian\<close>

text \<open>
  Claim C1. For every intent and optional memory, \<open>evaluate\<close> returns
  \<open>should_proceed = False\<close> exactly when the harm, the manipulation, the dignity or the
  bias check is true; a dependency finding alone, with those four checks false, leaves
  \<open>should_proceed\<close> true.
\<close>

theorem evaluate_should_proceed:
  "(should_proceed (evaluate exceeds intent memory) = False)
     = (check_harm intent \<or> check_manipulation intent \<or> check_dignity intent
        \<or> check_bias intent)
   \<and> is_harmful (evaluate exceeds intent memory) = check_harm intent
   \<and> is_manipulative (evaluate exceeds intent memory) = check_manipulation intent
   \<and> violates_dignity (evaluate exceeds intent memory) = check_dignity intent
   \<and> creates_dependency (evaluate exceeds intent memory)
       = check_dependency exceeds intent memory
   \<and> (creates_dependency (evaluate exceeds intent memory)
        \<and> \<not> check_harm intent \<and> \<not> check_manipulation intent
        \<and> \<not> check_dignity intent \<and> \<not> check_bias intent
      \<longrightarrow> should_proceed (evaluate exceeds intent memory))"
  by (simp add: evaluate_def Let_def)

theorem evaluate_should_proceed_witness:
  "creates_dependency (evaluate three_fifths dependency_only_intent None)
   \<and> \<not> check_harm dependency_only_intent \<and> \<not> check_manipulation dependency_only_intent
   \<and> \<not> check_dignity dependency_only_intent \<and> \<not> check_bias dependency_only_intent
   \<and> should_proceed (evaluate three_fifths dependency_only_intent None)"
  using evaluate_should_proceed [of three_fifths dependency_only_intent None]
  by (simp add: dependency_only_intent_def check_harm_def check_manipulation_def
        check_dignity_def check_bias_def check_dependency_def)

section \<open>Properties of the intent analyzer\<close>

lemma surface_analyze: "surface_request (analyze q mo) = extract_surface_request q"
  by (simp add: analyze_def Let_def)

lemma flags_analyze:
  "ethical_flags (analyze q mo) = detect_ethical_flags q (extract_surface_request q) mo"
  by (simp add: analyze_def Let_def)

lemma shortcut_label_flagged:
  "contains (lower ''Shortcut-seeking complete solution'') ''complete solution''"
  by code_simp

lemma shortcut_surface:
  "search direct_solution (lower q) \<Longrightarrow> search lazy_seeking (lower q)
     \<Longrightarrow> extract_surface_request q = ''Shortcut-seeking complete solution''"
  by (simp add: extract_surface_request_def Let_def)

lemma complete_surface:
  "search direct_solution (lower q) \<Longrightarrow> \<not> search lazy_seeking (lower q)
     \<Longrightarrow> extract_surface_request q = ''Request for complete solution''"
  by (simp add: extract_surface_request_def Let_def)

lemma dependency_flag_first:
  "contains (lower surface) ''complete solution''
     \<Longrightarrow> ''potential_dependency_creation'' \<in> set (detect_ethical_flags q surface mo)"
  by (simp add: detect_ethical_flags_def Let_def)

text \<open>
  Claim C5. For every query whose lower-cased text matches both the direct-solution and
  the lazy-seeking pattern, \<open>analyze\<close> returns the surface request
  "Shortcut-seeking complete solution" and a list of ethical flags that contains
  "potential_dependency_creation"; a query that matches the direct-solution pattern but
  not the lazy-seeking one gets the surface request "Request for complete solution".
\<close>

theorem analyze_direct_solution:
  "(search direct_solution (lower q) \<and> search lazy_seeking (lower q) \<longrightarrow>
      surface_request (analyze q mo) = ''Shortcut-seeking complete solution''
      \<and> ''potential_dependency_creation'' \<in> set (ethical_flags (analyze q mo)))
   \<and> (search direct_solution (lower q) \<and> \<not> search lazy_seeking (lower q) \<longrightarrow>
      surface_request (analyze q mo) = ''Request for complete solution'')"
proof -
  have "''potential_dependency_creation'' \<in> set (ethical_flags (analyze q mo))"
    if "search direct_solution (lower q)" and "search lazy_seeking (lower q)"
    using shortcut_surface [OF that] dependency_flag_first [OF shortcut_label_flagged, of q mo]
    by (simp only: flags_analyze)
  then show ?thesis
    by (simp add: surface_analyze shortcut_surface complete_surface)
qed

theorem analyze_direct_solution_witness:
  "search direct_solution (lower shortcut_query) \<and> search lazy_seeking (lower shortcut_query)
   \<and> surface_request (analyze shortcut_query None) = ''Shortcut-seeking complete solution''
   \<and> ''potential_dependency_creation'' \<in> set (ethical_flags (analyze shortcut_query None))
   \<and> search direct_solution (lower essay_query) \<and> \<not> search lazy_seeking (lower essay_query)
   \<and> surface_request (analyze essay_query None) = ''Request for complete solution''"
proof -
  have a: "search direct_solution (lower shortcut_query)" by code_simp
  have b: "search lazy_seeking (lower shortcut_query)" by code_simp
  have c: "search direct_solution (lower essay_query)" by code_simp
  have d: "\<not> search lazy_seeking (lower essay_query)" by code_simp
  from a b c d analyze_direct_solution [of shortcut_query None]
    analyze_direct_solution [of essay_query None]
  show ?thesis by simp
qed

section \<open>Properties of the response designer\<close>

lemma generate_redirect_nonempty: "generate_redirect intent cs \<noteq> []"
  by (simp add: generate_redirect_def)

lemma redirect_when_blocked:
  "\<not> should_proceed (evaluate ex intent mo)
     \<Longrightarrow> redirect_suggestion (evaluate ex intent mo)
          = Some (generate_redirect intent (concerns (evaluate ex intent mo)))"
  by (simp add: evaluate_def Let_def)

lemma create_blocked:
  "\<not> should_proceed v \<Longrightarrow> create i c v mo now = (create_redirect_response i v, mo)"
  by (simp add: create_def)

lemma create_proceed_memory:
  "should_proceed v \<Longrightarrow>
     snd (create i c v (Some m) now) =
       Some (m\<lparr>interaction_count := interaction_count m + 1,
               capability_trend := capability_trend m @ [score c],
               request_history := request_history m @ [surface_request i],
               last_interaction := Some now\<rparr>)"
  by (simp add: create_def Let_def)

lemma get_or_create_memories:
  "user_memories (snd (get_or_create_user_memory mvg uid))
     = (user_memories mvg)(uid \<mapsto> fst (get_or_create_user_memory mvg uid))"
  by (auto simp: get_or_create_user_memory_def split: option.splits)

lemma process_request_should_proceed:
  "evaluation_should_proceed (fst (process_request ex mvg q uid t1 t2))
     = should_proceed (evaluate ex (analyze q (Some (current_memory mvg uid)))
         (Some (current_memory mvg uid)))"
  by (simp add: process_request_def current_memory_def Let_def case_prod_beta)

lemma process_request_memories:
  "user_memories (snd (process_request ex mvg q uid t1 t2)) =
     (user_memories mvg)(uid \<mapsto>
        (let m = current_memory mvg uid;
             intent = analyze q (Some m);
             capability = assess q (Some m);
             verdict = evaluate ex intent (Some m);
             cr = create intent capability verdict (Some m) t1;
             m1 = (case snd cr of None \<Rightarrow> m | Some m' \<Rightarrow> m')
         in m1\<lparr>conversation_context :=
                 conversation_context m1
                 @ [\<lparr>ctx_query = q, ctx_response = response_text (fst cr),
                      ctx_capability_level = level_value (level capability),
                      ctx_capability_score = score capability,
                      ctx_timestamp = t2\<rparr>]\<rparr>))"
  by (simp add: process_request_def current_memory_def Let_def get_or_create_memories
      case_prod_beta)

lemma process_request_response:
  "response (fst (process_request ex mvg q uid t1 t2)) =
     (let m = current_memory mvg uid;
          intent = analyze q (Some m)
      in response_text (fst (create intent (assess q (Some m)) (evaluate ex intent (Some m))
           (Some m) t1)))"
  by (simp add: process_request_def current_memory_def Let_def case_prod_beta)

text \<open>
  Claim C6, as amended. Whenever \<open>should_proceed\<close> of the verdict is false, \<open>create\<close>
  returns as \<open>response_text\<close> the redirect text of the verdict when that text is present
  and not empty, and the fixed sentence "I need to pause here." otherwise; it leaves the
  memory as it was (so \<open>interaction_count\<close>, \<open>capability_trend\<close>, \<open>request_history\<close> and
  \<open>last_interaction\<close> are unchanged). On the blocked path of \<open>process_request\<close> the
  verdict comes from \<open>evaluate\<close>, its redirect text is present and not empty and is the
  response, and the memory of the user changes only by the entry appended to
  \<open>conversation_context\<close>.
\<close>

theorem blocked_response:
  "(\<not> should_proceed v \<longrightarrow>
      response_text (fst (create i c v mo now)) =
        (case redirect_suggestion v of
           None \<Rightarrow> ''I need to pause here.''
         | Some r \<Rightarrow> if r = [] then ''I need to pause here.'' else r)
      \<and> snd (create i c v mo now) = mo)
   \<and> (\<not> evaluation_should_proceed (fst (process_request ex mvg q uid t1 t2)) \<longrightarrow>
      (let m = current_memory mvg uid;
           intent = analyze q (Some m);
           verdict = evaluate ex intent (Some m);
           r = generate_redirect intent (concerns verdict)
       in redirect_suggestion verdict = Some r \<and> r \<noteq> []
          \<and> response (fst (process_request ex mvg q uid t1 t2)) = r
          \<and> user_memories (snd (process_request ex mvg q uid t1 t2)) =
              (user_memories mvg)(uid \<mapsto>
                 m\<lparr>conversation_context :=
                     conversation_context m
                     @ [\<lparr>ctx_query = q, ctx_response = r,
                          ctx_capability_level = level_value (level (assess q (Some m))),
                          ctx_capability_score = score (assess q (Some m)),
                          ctx_timestamp = t2\<rparr>]\<rparr>)))"
proof -
  have a: "\<not> should_proceed v \<longrightarrow>
      response_text (fst (create i c v mo now)) =
        (case redirect_suggestion v of
           None \<Rightarrow> ''I need to pause here.''
         | Some r \<Rightarrow> if r = [] then ''I need to pause here.'' else r)
      \<and> snd (create i c v mo now) = mo"
    by (simp add: create_blocked create_redirect_response_def)
  have b: "let m = current_memory mvg uid;
           intent = analyze q (Some m);
           verdict = evaluate ex intent (Some m);
           r = generate_redirect intent (concerns verdict)
       in redirect_suggestion verdict = Some r \<and> r \<noteq> []
          \<and> response (fst (process_request ex mvg q uid t1 t2)) = r
          \<and> user_memories (snd (process_request ex mvg q uid t1 t2)) =
              (user_memories mvg)(uid \<mapsto>
                 m\<lparr>conversation_context :=
                     conversation_context m
                     @ [\<lparr>ctx_query = q, ctx_response = r,
                          ctx_capability_level = level_value (level (assess q (Some m))),
                          ctx_capability_score = score (assess q (Some m)),
                          ctx_timestamp = t2\<rparr>]\<rparr>)"
    if blk: "\<not> evaluation_should_proceed (fst (process_request ex mvg q uid t1 t2))"
  proof -
    define m where "m = current_memory mvg uid"
    define intent where "intent = analyze q (Some m)"
    define verdict where "verdict = evaluate ex intent (Some m)"
    from blk have np: "\<not> should_proceed verdict"
      by (simp add: process_request_should_proceed verdict_def intent_def m_def)
    have red: "redirect_suggestion verdict = Some (generate_redirect intent (concerns verdict))"
      using np unfolding verdict_def by (rule redirect_when_blocked)
    have cr: "create intent (assess q (Some m)) verdict (Some m) t1
                = (create_redirect_response intent verdict, Some m)"
      using np by (rule create_blocked)
    have rtext: "response_text (create_redirect_response intent verdict)
                 = generate_redirect intent (concerns verdict)"
      by (simp add: create_redirect_response_def red generate_redirect_nonempty)
    show ?thesis
      unfolding Let_def m_def [symmetric] intent_def [symmetric] verdict_def [symmetric]
      using red generate_redirect_nonempty [of intent "concerns verdict"] cr rtext
      by (simp add: process_request_response process_request_memories Let_def
            m_def [symmetric] intent_def [symmetric] verdict_def [symmetric])
  qed
  from a b show ?thesis by blast
qed

text \<open>
  The claim C6 as first stated fails for a blocked verdict whose redirect text is the
  empty string: the response is the fixed sentence, not that text.
\<close>

theorem blocked_response_counterexample:
  "\<not> should_proceed blocked_empty_redirect
   \<and> redirect_suggestion blocked_empty_redirect = Some []
   \<and> response_text (fst (create dependency_only_intent (assess [] None)
        blocked_empty_redirect None 0)) = ''I need to pause here.''"
  by (simp add: blocked_empty_redirect_def create_def create_redirect_response_def)

theorem blocked_response_witness:
  "\<not> should_proceed blocked_empty_redirect
   \<and> response_text (fst (create dependency_only_intent (assess [] None)
        blocked_empty_redirect (Some (new_user_memory ''student_001'')) 0))
       = ''I need to pause here.''
   \<and> snd (create dependency_only_intent (assess [] None)
        blocked_empty_redirect (Some (new_user_memory ''student_001'')) 0)
       = Some (new_user_memory ''student_001'')
   \<and> \<not> evaluation_should_proceed
        (fst (process_request three_fifths MVG_init sabotage_query ''student_001'' 1 2))
   \<and> response (fst (process_request three_fifths MVG_init sabotage_query ''student_001'' 1 2))
       = ''I cannot assist with this request as it may cause harm. ''
         @ ''However, I'd like to help you achieve your underlying goal ''
         @ ''in a way that benefits everyone involved. What's the positive ''
         @ ''outcome you're trying to reach?''
   \<and> map_option interaction_count
        (user_memories (snd (process_request three_fifths MVG_init sabotage_query
           ''student_001'' 1 2)) ''student_001'') = Some 0
   \<and> map_option (length \<circ> conversation_context)
        (user_memories (snd (process_request three_fifths MVG_init sabotage_query
           ''student_001'' 1 2)) ''student_001'') = Some 1"
proof -
  have np: "\<not> should_proceed blocked_empty_redirect"
    by (simp add: blocked_empty_redirect_def)
  have blk: "\<not> evaluation_should_proceed
        (fst (process_request three_fifths MVG_init sabotage_query ''student_001'' 1 2))"
    by code_simp
  have red: "generate_redirect (analyze sabotage_query (Some (new_user_memory ''student_001'')))
       (concerns (evaluate three_fifths
          (analyze sabotage_query (Some (new_user_memory ''student_001'')))
          (Some (new_user_memory ''student_001''))))
     = ''I cannot assist with this request as it may cause harm. ''
         @ ''However, I'd like to help you achieve your underlying goal ''
         @ ''in a way that benefits everyone involved. What's the positive ''
         @ ''outcome you're trying to reach?''"
    by code_simp
  have cm: "current_memory MVG_init ''student_001'' = new_user_memory ''student_001''"
    by (simp add: current_memory_def get_or_create_user_memory_def MVG_init_def)
  have fresh: "interaction_count (new_user_memory ''student_001'') = 0"
    "conversation_context (new_user_memory ''student_001'') = []"
    by (simp_all add: new_user_memory_def)
  from np blk
    blocked_response [of blocked_empty_redirect dependency_only_intent "assess [] None"
      "Some (new_user_memory ''student_001'')" 0 three_fifths MVG_init sabotage_query
      "''student_001''" 1 2]
  show ?thesis
    by (simp add: Let_def red cm fresh blocked_empty_redirect_def)
qed

section \<open>The first request of the demonstration\<close>

lemma process_request_result:
  "fst (process_request ex mvg q uid t1 t2) =
     (let m = current_memory mvg uid;
          intent = analyze q (Some m);
          capability = assess q (Some m);
          verdict = evaluate ex intent (Some m);
          cr = create intent capability verdict (Some m) t1;
          m1 = (case snd cr of None \<Rightarrow> m | Some m' \<Rightarrow> m')
      in \<lparr>response = response_text (fst cr),
          meta_user_id = uid,
          interaction_number = interaction_count m1 + 1,
          intent_surface = surface_request intent,
          intent_deep_need = deep_need intent,
          intent_motivation = underlying_motivation intent,
          intent_growth_opportunity = growth_opportunity intent,
          assessment_level = level_value (level capability),
          assessment_score = score capability,
          assessment_trend = trend_label (capability_trend m1),
          assessment_strengths = strengths capability,
          assessment_weaknesses = weaknesses capability,
          evaluation_should_proceed = should_proceed verdict,
          evaluation_concerns = concerns verdict,
          meta_expected_outcome = expected_outcome (fst cr),
          meta_independence_impact = independence_score_impact (fst cr)\<rparr>)"
  by (simp add: process_request_def current_memory_def Let_def case_prod_beta)

lemma current_memory_fresh:
  "user_memories mvg uid = None \<Longrightarrow> current_memory mvg uid = new_user_memory uid"
  by (simp add: current_memory_def get_or_create_user_memory_def)

lemma essay_intent:
  "analyze essay_query (Some (new_user_memory uid)) =
     \<lparr>surface_request = ''Request for complete solution'',
      deep_need = ''Knowledge or skill development'',
      underlying_motivation = ''Time pressure / Procrastination'',
      ethical_flags = [''potential_dependency_creation''],
      growth_opportunity = ''Transform complete solution request into guided learning''\<rparr>"
  by code_simp

lemma essay_capability:
  "level (assess essay_query (Some (new_user_memory uid))) = INTERMEDIATE"
  "score (assess essay_query (Some (new_user_memory uid))) = 38"
  "strengths (assess essay_query (Some (new_user_memory uid)))
     = [''Has solid foundational knowledge'']"
  by code_simp+

lemma essay_tone: "extract_motivation_tone ''Time pressure / Procrastination'' = ''urgency''"
  by code_simp

lemma essay_response:
  "response_text (design_for_intermediate i
      (assess essay_query (Some (new_user_memory uid))) ''urgency'' mo)
    = ''Excellent thinking. You're ready to develop mastery. Let me challenge you appropriately.''
         @ ''\<newline>''
         @ ''\<newline>''
         @ ''**I notice:** Has solid foundational knowledge\<newline>''
         @ ''\<newline>''
         @ ''**Let's think strategically:**\<newline>''
         @ ''\<newline>''
         @ ''1. **Core Question** - What's the real challenge here? (Not just the surface)\<newline>''
         @ ''2. **Your Approach** - What have you tried? What approaches could work?\<newline>''
         @ ''3. **Testing** - How would you verify if your solution is right?\<newline>''
         @ ''4. **Refinement** - What would make it better/more elegant?\<newline>''
         @ ''\<newline>''
         @ ''**Your task:**\<newline>''
         @ ''- Work through these questions\<newline>''
         @ ''- Share your reasoning with me\<newline>''
         @ ''- We'll iterate until you've got it solid\<newline>''
         @ ''\<newline>''
         @ ''**Why this way?** You have the skills. You just need to organize your thinking at a deeper level. That's how you move from competent to confident.\<newline>''
         @ ''\<newline>''
         @ ''What insights do you have so far?''"
  unfolding design_for_intermediate_def Let_def essay_capability
  by code_simp

lemma create_proceed_response:
  "should_proceed v \<Longrightarrow>
     fst (create i c v mo now) =
       (if level c = BEGINNER then
          design_for_beginner i c (extract_motivation_tone (underlying_motivation i)) mo
        else if level c = INTERMEDIATE then
          design_for_intermediate i c (extract_motivation_tone (underlying_motivation i)) mo
        else design_for_advanced i c (extract_motivation_tone (underlying_motivation i)) mo)"
  by (simp add: create_def Let_def)

lemma essay_proceeds:
  "should_proceed (evaluate ex (analyze essay_query (Some (new_user_memory uid))) mo)"
  by (simp add: essay_intent evaluate_def Let_def check_harm_def check_manipulation_def
        check_dignity_def check_bias_def)

lemma essay_result:
  assumes "user_memories mvg uid = None"
  shows "intent_surface (fst (process_request ex mvg essay_query uid t1 t2))
           = ''Request for complete solution''"
    and "intent_motivation (fst (process_request ex mvg essay_query uid t1 t2))
           = ''Time pressure / Procrastination''"
    and "assessment_score (fst (process_request ex mvg essay_query uid t1 t2)) = 38"
    and "assessment_level (fst (process_request ex mvg essay_query uid t1 t2))
           = ''intermediate''"
    and "evaluation_should_proceed (fst (process_request ex mvg essay_query uid t1 t2))"
    and "response (fst (process_request ex mvg essay_query uid t1 t2))
           = ''Excellent thinking. You're ready to develop mastery. Let me challenge you appropriately.''
         @ ''\<newline>''
         @ ''\<newline>''
         @ ''**I notice:** Has solid foundational knowledge\<newline>''
         @ ''\<newline>''
         @ ''**Let's think strategically:**\<newline>''
         @ ''\<newline>''
         @ ''1. **Core Question** - What's the real challenge here? (Not just the surface)\<newline>''
         @ ''2. **Your Approach** - What have you tried? What approaches could work?\<newline>''
         @ ''3. **Testing** - How would you verify if your solution is right?\<newline>''
         @ ''4. **Refinement** - What would make it better/more elegant?\<newline>''
         @ ''\<newline>''
         @ ''**Your task:**\<newline>''
         @ ''- Work through these questions\<newline>''
         @ ''- Share your reasoning with me\<newline>''
         @ ''- We'll iterate until you've got it solid\<newline>''
         @ ''\<newline>''
         @ ''**Why this way?** You have the skills. You just need to organize your thinking at a deeper level. That's how you move from competent to confident.\<newline>''
         @ ''\<newline>''
         @ ''What insights do you have so far?''"
proof -
  note m = current_memory_fresh [OF assms]
  show "intent_surface (fst (process_request ex mvg essay_query uid t1 t2))
           = ''Request for complete solution''"
    by (simp add: process_request_result Let_def m essay_intent)
  show "intent_motivation (fst (process_request ex mvg essay_query uid t1 t2))
           = ''Time pressure / Procrastination''"
    by (simp add: process_request_result Let_def m essay_intent)
  show "assessment_score (fst (process_request ex mvg essay_query uid t1 t2)) = 38"
    by (simp add: process_request_result Let_def m essay_capability)
  show "assessment_level (fst (process_request ex mvg essay_query uid t1 t2))
           = ''intermediate''"
    by (simp add: process_request_result Let_def m essay_capability)
  show "evaluation_should_proceed (fst (process_request ex mvg essay_query uid t1 t2))"
    by (simp add: process_request_result Let_def m essay_proceeds)
  have s1: "response (fst (process_request ex mvg essay_query uid t1 t2))
      = response_text (fst (create (analyze essay_query (Some (new_user_memory uid)))
          (assess essay_query (Some (new_user_memory uid)))
          (evaluate ex (analyze essay_query (Some (new_user_memory uid)))
             (Some (new_user_memory uid)))
          (Some (new_user_memory uid)) t1))"
    by (simp add: process_request_result Let_def m)
  have s2: "fst (create (analyze essay_query (Some (new_user_memory uid)))
          (assess essay_query (Some (new_user_memory uid)))
          (evaluate ex (analyze essay_query (Some (new_user_memory uid)))
             (Some (new_user_memory uid)))
          (Some (new_user_memory uid)) t1)
      = design_for_intermediate (analyze essay_query (Some (new_user_memory uid)))
          (assess essay_query (Some (new_user_memory uid)))
          (extract_motivation_tone
             (underlying_motivation (analyze essay_query (Some (new_user_memory uid)))))
          (Some (new_user_memory uid))"
    by (simp add: create_proceed_response [OF essay_proceeds] essay_capability)
  have s3: "extract_motivation_tone
             (underlying_motivation (analyze essay_query (Some (new_user_memory uid))))
      = ''urgency''"
    by (simp add: essay_intent essay_tone)
  have "response (fst (process_request ex mvg essay_query uid t1 t2))
      = response_text (design_for_intermediate
          (analyze essay_query (Some (new_user_memory uid)))
          (assess essay_query (Some (new_user_memory uid))) ''urgency''
          (Some (new_user_memory uid)))"
    by (simp only: s1 s2 s3)
  then show "response (fst (process_request ex mvg essay_query uid t1 t2))
           = ''Excellent thinking. You're ready to develop mastery. Let me challenge you appropriately.''
         @ ''\<newline>''
         @ ''\<newline>''
         @ ''**I notice:** Has solid foundational knowledge\<newline>''
         @ ''\<newline>''
         @ ''**Let's think strategically:**\<newline>''
         @ ''\<newline>''
         @ ''1. **Core Question** - What's the real challenge here? (Not just the surface)\<newline>''
         @ ''2. **Your Approach** - What have you tried? What approaches could work?\<newline>''
         @ ''3. **Testing** - How would you verify if your solution is right?\<newline>''
         @ ''4. **Refinement** - What would make it better/more elegant?\<newline>''
         @ ''\<newline>''
         @ ''**Your task:**\<newline>''
         @ ''- Work through these questions\<newline>''
         @ ''- Share your reasoning with me\<newline>''
         @ ''- We'll iterate until you've got it solid\<newline>''
         @ ''\<newline>''
         @ ''**Why this way?** You have the skills. You just need to organize your thinking at a deeper level. That's how you move from competent to confident.\<newline>''
         @ ''\<newline>''
         @ ''What insights do you have so far?''"
    by (simp only: essay_response)
qed

lemma no_urgency_template:
  "map_of BEGINNER_TEMPLATES ''urgency'' = None"
  "map_of INTERMEDIATE_TEMPLATES ''urgency'' = None"
  "dict_item INTERMEDIATE_TEMPLATES ''genuine''
     = ''Excellent thinking. You're ready to develop mastery. Let me challenge you appropriately.''"
  by code_simp+

text \<open>
  The claim C4 as first stated fails: for that query and a fresh user the level is not
  beginner, and the response does not open with the beginner template for fear.
\<close>

theorem essay_request_counterexample:
  "assessment_level (fst (process_request three_fifths MVG_init essay_query ''student_001'' 1 2))
     \<noteq> ''beginner''
   \<and> \<not> starts_with
        (response (fst (process_request three_fifths MVG_init essay_query ''student_001'' 1 2)))
        (dict_item BEGINNER_TEMPLATES ''fear'')"
proof -
  have fresh: "user_memories MVG_init ''student_001'' = None"
    by (simp add: MVG_init_def)
  have "\<not> starts_with
        (''Excellent thinking. You're ready to develop mastery. Let me challenge you appropriately.''
         @ ''\<newline>''
         @ ''\<newline>''
         @ ''**I notice:** Has solid foundational knowledge\<newline>''
         @ ''\<newline>''
         @ ''**Let's think strategically:**\<newline>''
         @ ''\<newline>''
         @ ''1. **Core Question** - What's the real challenge here? (Not just the surface)\<newline>''
         @ ''2. **Your Approach** - What have you tried? What approaches could work?\<newline>''
         @ ''3. **Testing** - How would you verify if your solution is right?\<newline>''
         @ ''4. **Refinement** - What would make it better/more elegant?\<newline>''
         @ ''\<newline>''
         @ ''**Your task:**\<newline>''
         @ ''- Work through these questions\<newline>''
         @ ''- Share your reasoning with me\<newline>''
         @ ''- We'll iterate until you've got it solid\<newline>''
         @ ''\<newline>''
         @ ''**Why this way?** You have the skills. You just need to organize your thinking at a deeper level. That's how you move from competent to confident.\<newline>''
         @ ''\<newline>''
         @ ''What insights do you have so far?'')
        (dict_item BEGINNER_TEMPLATES ''fear'')"
    by code_simp
  then show ?thesis
    by (simp add: essay_result [OF fresh])
qed

text \<open>
  Claim C4, as amended. For the query "Write my essay about climate change. It's due
  tomorrow and I haven't started." processed for a user not seen before, the result has
  the surface request "Request for complete solution", the motivation
  "Time pressure / Procrastination", the capability score 38 and hence the level
  intermediate, and \<open>should_proceed\<close> true. The motivation falls into the bucket
  "urgency", for which no level has a template, so the response opens with the
  intermediate template of the bucket "genuine", followed by the four strategic questions.
\<close>

theorem essay_request_result:
  assumes "user_memories mvg uid = None"
  shows "intent_surface (fst (process_request ex mvg essay_query uid t1 t2))
           = ''Request for complete solution''
    \<and> \<not> search lazy_seeking (lower essay_query)
    \<and> intent_motivation (fst (process_request ex mvg essay_query uid t1 t2))
           = ''Time pressure / Procrastination''
    \<and> assessment_score (fst (process_request ex mvg essay_query uid t1 t2)) = 38
    \<and> assessment_level (fst (process_request ex mvg essay_query uid t1 t2))
           = ''intermediate''
    \<and> evaluation_should_proceed (fst (process_request ex mvg essay_query uid t1 t2))
    \<and> extract_motivation_tone ''Time pressure / Procrastination'' = ''urgency''
    \<and> map_of BEGINNER_TEMPLATES ''urgency'' = None
    \<and> map_of INTERMEDIATE_TEMPLATES ''urgency'' = None
    \<and> dict_item INTERMEDIATE_TEMPLATES ''genuine''
         = ''Excellent thinking. You're ready to develop mastery. Let me challenge you appropriately.''
    \<and> response (fst (process_request ex mvg essay_query uid t1 t2))
           = ''Excellent thinking. You're ready to develop mastery. Let me challenge you appropriately.''
         @ ''\<newline>''
         @ ''\<newline>''
         @ ''**I notice:** Has solid foundational knowledge\<newline>''
         @ ''\<newline>''
         @ ''**Let's think strategically:**\<newline>''
         @ ''\<newline>''
         @ ''1. **Core Question** - What's the real challenge here? (Not just the surface)\<newline>''
         @ ''2. **Your Approach** - What have you tried? What approaches could work?\<newline>''
         @ ''3. **Testing** - How would you verify if your solution is right?\<newline>''
         @ ''4. **Refinement** - What would make it better/more elegant?\<newline>''
         @ ''\<newline>''
         @ ''**Your task:**\<newline>''
         @ ''- Work through these questions\<newline>''
         @ ''- Share your reasoning with me\<newline>''
         @ ''- We'll iterate until you've got it solid\<newline>''
         @ ''\<newline>''
         @ ''**Why this way?** You have the skills. You just need to organize your thinking at a deeper level. That's how you move from competent to confident.\<newline>''
         @ ''\<newline>''
         @ ''What insights do you have so far?''"
proof -
  have lazy: "\<not> search lazy_seeking (lower essay_query)" by code_simp
  from lazy essay_result [OF assms, of ex t1 t2] essay_tone no_urgency_template
  show ?thesis by (simp only: simp_thms)
qed

theorem essay_request_result_witness:
  "user_memories MVG_init ''student_001'' = None
   \<and> intent_surface (fst (process_request three_fifths MVG_init essay_query ''student_001'' 1 2))
       = ''Request for complete solution''
   \<and> intent_motivation (fst (process_request three_fifths MVG_init essay_query ''student_001'' 1 2))
       = ''Time pressure / Procrastination''
   \<and> assessment_score (fst (process_request three_fifths MVG_init essay_query ''student_001'' 1 2))
       = 38
   \<and> assessment_level (fst (process_request three_fifths MVG_init essay_query ''student_001'' 1 2))
       = ''intermediate''
   \<and> evaluation_should_proceed
        (fst (process_request three_fifths MVG_init essay_query ''student_001'' 1 2))"
proof -
  have fresh: "user_memories MVG_init ''student_001'' = None"
    by (simp add: MVG_init_def)
  from fresh essay_request_result [OF fresh, of three_fifths 1 2]
  show ?thesis by simp
qed

section \<open>Sessions\<close>

lemma process_request_user [simp]:
  "meta_user_id (fst (process_request ex mvg q u t1 t2)) = u"
  by (simp add: process_request_result Let_def)

lemma process_request_surface:
  "intent_surface (fst (process_request ex mvg q u t1 t2)) = extract_surface_request q"
  by (simp add: process_request_result Let_def surface_analyze)

lemma current_memory_eq:
  "current_memory mvg uid =
     (case user_memories mvg uid of None \<Rightarrow> new_user_memory uid | Some m \<Rightarrow> m)"
  by (simp add: current_memory_def get_or_create_user_memory_def split: option.splits)

lemma current_memory_update:
  "user_memories mvg' = (user_memories mvg)(u \<mapsto> m)
     \<Longrightarrow> current_memory mvg' uid = (if uid = u then m else current_memory mvg uid)"
  by (simp add: current_memory_eq)

lemma step_memory:
  "current_memory (snd (process_request ex mvg q u t1 t2)) uid =
     (if uid = u then
        (let m = current_memory mvg u;
             intent = analyze q (Some m);
             capability = assess q (Some m);
             verdict = evaluate ex intent (Some m);
             cr = create intent capability verdict (Some m) t1;
             m1 = (case snd cr of None \<Rightarrow> m | Some m' \<Rightarrow> m')
         in m1\<lparr>conversation_context :=
                 conversation_context m1
                 @ [\<lparr>ctx_query = q, ctx_response = response_text (fst cr),
                      ctx_capability_level = level_value (level capability),
                      ctx_capability_score = score capability,
                      ctx_timestamp = t2\<rparr>]\<rparr>)
      else current_memory mvg uid)"
  using current_memory_update [OF process_request_memories, of ex mvg q u t1 t2 uid]
  by simp

lemma step_count:
  "interaction_count (current_memory (snd (process_request ex mvg q u t1 t2)) uid) =
     interaction_count (current_memory mvg uid)
     + (if uid = u \<and> evaluation_should_proceed (fst (process_request ex mvg q u t1 t2))
        then 1 else 0)"
  by (simp add: step_memory process_request_should_proceed Let_def create_blocked
        create_proceed_memory)

lemma step_trend:
  "capability_trend (current_memory (snd (process_request ex mvg q u t1 t2)) uid) =
     capability_trend (current_memory mvg uid)
     @ (if uid = u \<and> evaluation_should_proceed (fst (process_request ex mvg q u t1 t2))
        then [assessment_score (fst (process_request ex mvg q u t1 t2))] else [])"
  by (simp add: step_memory process_request_should_proceed Let_def create_blocked
        create_proceed_memory process_request_result)

lemma step_history:
  "request_history (current_memory (snd (process_request ex mvg q u t1 t2)) uid) =
     request_history (current_memory mvg uid)
     @ (if uid = u \<and> evaluation_should_proceed (fst (process_request ex mvg q u t1 t2))
        then [intent_surface (fst (process_request ex mvg q u t1 t2))] else [])"
  by (simp add: step_memory process_request_should_proceed Let_def create_blocked
        create_proceed_memory process_request_result)

lemma step_number:
  "interaction_number (fst (process_request ex mvg q u t1 t2)) =
     interaction_count (current_memory (snd (process_request ex mvg q u t1 t2)) u) + 1"
  by (simp add: step_memory process_request_result Let_def)

lemma run_Cons:
  "run ex mvg ((q, u, t1, t2) # rest) =
     (fst (process_request ex mvg q u t1 t2)
        # fst (run ex (snd (process_request ex mvg q u t1 t2)) rest),
      snd (run ex (snd (process_request ex mvg q u t1 t2)) rest))"
  by (simp add: case_prod_beta Let_def)

lemma run_accumulates:
  "interaction_count (current_memory (snd (run ex mvg reqs)) uid) =
     interaction_count (current_memory mvg uid)
     + int (length (proceeded uid (fst (run ex mvg reqs))))
   \<and> capability_trend (current_memory (snd (run ex mvg reqs)) uid) =
     capability_trend (current_memory mvg uid)
     @ map assessment_score (proceeded uid (fst (run ex mvg reqs)))
   \<and> request_history (current_memory (snd (run ex mvg reqs)) uid) =
     request_history (current_memory mvg uid)
     @ map intent_surface (proceeded uid (fst (run ex mvg reqs)))"
proof (induction reqs arbitrary: mvg)
  case Nil
  show ?case by (simp add: proceeded_def)
next
  case (Cons req rest)
  obtain q u t1 t2 where req: "req = (q, u, t1, t2)" by (cases req) auto
  show ?case
    unfolding req run_Cons
    using Cons.IH [of "snd (process_request ex mvg q u t1 t2)"]
    by (auto simp: proceeded_def step_count step_trend step_history)
qed


lemma current_memory_init: "current_memory MVG_init uid = new_user_memory uid"
  by (simp add: current_memory_eq MVG_init_def)



lemma length_run: "length (fst (run ex mvg reqs)) = length reqs"
proof (induction reqs arbitrary: mvg)
  case Nil
  show ?case by simp
next
  case (Cons req rest)
  obtain q u t1 t2 where req: "req = (q, u, t1, t2)" by (cases req) auto
  show ?case unfolding req run_Cons by (simp add: Cons.IH)
qed

lemma step_number_before:
  "interaction_number (fst (process_request ex mvg q u t1 t2)) =
     interaction_count (current_memory mvg u)
     + (if evaluation_should_proceed (fst (process_request ex mvg q u t1 t2)) then 2 else 1)"
  by (simp add: step_number step_count)

lemma run_number:
  "i < length reqs \<Longrightarrow>
     interaction_number (fst (run ex mvg reqs) ! i) =
       interaction_count (current_memory mvg (meta_user_id (fst (run ex mvg reqs) ! i)))
       + int (length (proceeded (meta_user_id (fst (run ex mvg reqs) ! i))
                        (take i (fst (run ex mvg reqs)))))
       + (if evaluation_should_proceed (fst (run ex mvg reqs) ! i) then 2 else 1)"
proof (induction reqs arbitrary: mvg i)
  case Nil
  then show ?case by simp
next
  case (Cons req rest)
  obtain q u t1 t2 where req: "req = (q, u, t1, t2)" by (cases req) auto
  show ?case
  proof (cases i)
    case 0
    then show ?thesis
      unfolding req run_Cons by (simp add: step_number_before proceeded_def)
  next
    case (Suc j)
    with Cons.prems have j: "j < length rest" by simp
    show ?thesis
      unfolding req run_Cons Suc
      using Cons.IH [OF j, of "snd (process_request ex mvg q u t1 t2)"]
      by (auto simp: proceeded_def step_count)
  qed
qed

lemma three_session:
  "map (\<lambda>r. (interaction_number r, evaluation_should_proceed r, intent_surface r))
       (fst (run three_fifths MVG_init three_requests))
     = [(2, True, ''Request for complete solution''),
        (2, False, ''Request for understanding/learning''),
        (3, True, ''Shortcut-seeking complete solution'')]"
  by code_simp

lemma three_session_users:
  "map meta_user_id (fst (run three_fifths MVG_init three_requests))
     = [''student_001'', ''student_001'', ''student_001'']"
  by (simp add: three_requests_def case_prod_beta Let_def)


lemma three_session_results:
  obtains r0 r1 r2 where "fst (run three_fifths MVG_init three_requests) = [r0, r1, r2]"
    and "meta_user_id r0 = ''student_001''" and "meta_user_id r1 = ''student_001''"
    and "meta_user_id r2 = ''student_001''"
    and "evaluation_should_proceed r0" and "\<not> evaluation_should_proceed r1"
    and "evaluation_should_proceed r2"
    and "intent_surface r0 = ''Request for complete solution''"
    and "intent_surface r2 = ''Shortcut-seeking complete solution''"
    and "interaction_number r0 = 2" and "interaction_number r1 = 2"
    and "interaction_number r2 = 3"
proof -
  obtain r0 r1 r2 where rs: "fst (run three_fifths MVG_init three_requests) = [r0, r1, r2]"
    using three_session_users by auto
  with three_session three_session_users that show thesis
    by simp
qed



text \<open>
  Claim C9. The \<open>interaction_number\<close> in the returned metadata is the memory's
  \<open>interaction_count\<close> as it stands after the request, plus one. On a call that is not
  blocked the response designer has already incremented the count, so the number is the
  count before the call plus two: the first such request of a fresh user reports 2, and
  in a session the number is the count of the user's earlier non-blocked requests plus
  two, that is \<open>N + 1\<close> for the \<open>N\<close>-th non-blocked request. Only on a blocked call is
  it the count of the earlier non-blocked requests plus one.
\<close>

theorem interaction_number_value:
  "interaction_number (fst (process_request ex mvg q u t1 t2))
     = interaction_count (current_memory (snd (process_request ex mvg q u t1 t2)) u) + 1
   \<and> (evaluation_should_proceed (fst (process_request ex mvg q u t1 t2)) \<longrightarrow>
        interaction_count (current_memory (snd (process_request ex mvg q u t1 t2)) u)
          = interaction_count (current_memory mvg u) + 1
        \<and> interaction_number (fst (process_request ex mvg q u t1 t2))
          = interaction_count (current_memory mvg u) + 2)
   \<and> (evaluation_should_proceed (fst (process_request ex mvg q u t1 t2))
        \<and> user_memories mvg u = None \<longrightarrow>
        interaction_number (fst (process_request ex mvg q u t1 t2)) = 2)
   \<and> (i < length reqs \<longrightarrow>
        interaction_number (fst (run ex MVG_init reqs) ! i) =
          int (length (proceeded (meta_user_id (fst (run ex MVG_init reqs) ! i))
                         (take i (fst (run ex MVG_init reqs)))))
          + (if evaluation_should_proceed (fst (run ex MVG_init reqs) ! i) then 2 else 1))"
proof -
  have a: "interaction_number (fst (process_request ex mvg q u t1 t2))
     = interaction_count (current_memory (snd (process_request ex mvg q u t1 t2)) u) + 1"
    by (rule step_number)
  have b: "interaction_count (current_memory (snd (process_request ex mvg q u t1 t2)) u)
          = interaction_count (current_memory mvg u) + 1
        \<and> interaction_number (fst (process_request ex mvg q u t1 t2))
          = interaction_count (current_memory mvg u) + 2"
    if "evaluation_should_proceed (fst (process_request ex mvg q u t1 t2))"
    using that by (simp add: step_count step_number_before)
  have c: "interaction_number (fst (process_request ex mvg q u t1 t2)) = 2"
    if "evaluation_should_proceed (fst (process_request ex mvg q u t1 t2))"
      and "user_memories mvg u = None"
    using that
    by (simp add: step_number_before current_memory_fresh new_user_memory_def)
  have d: "interaction_number (fst (run ex MVG_init reqs) ! i) =
          int (length (proceeded (meta_user_id (fst (run ex MVG_init reqs) ! i))
                         (take i (fst (run ex MVG_init reqs)))))
          + (if evaluation_should_proceed (fst (run ex MVG_init reqs) ! i) then 2 else 1)"
    if "i < length reqs"
    using run_number [OF that, of ex MVG_init]
    by (simp add: current_memory_init new_user_memory_def)
  from a b c d show ?thesis by blast
qed

theorem interaction_number_value_witness:
  "user_memories MVG_init ''student_001'' = None
   \<and> evaluation_should_proceed
        (fst (process_request three_fifths MVG_init essay_query ''student_001'' 1 2))
   \<and> interaction_number
        (fst (process_request three_fifths MVG_init essay_query ''student_001'' 1 2)) = 2
   \<and> interaction_count (current_memory
        (snd (process_request three_fifths MVG_init essay_query ''student_001'' 1 2))
        ''student_001'') = 1
   \<and> map interaction_number (fst (run three_fifths MVG_init three_requests)) = [2, 2, 3]
   \<and> map evaluation_should_proceed (fst (run three_fifths MVG_init three_requests))
       = [True, False, True]"
proof -
  have fresh: "user_memories MVG_init ''student_001'' = None"
    by (simp add: MVG_init_def)
  have ok: "evaluation_should_proceed
        (fst (process_request three_fifths MVG_init essay_query ''student_001'' 1 2))"
    using essay_result(5) [OF fresh] .
  obtain r0 r1 r2 where rs: "fst (run three_fifths MVG_init three_requests) = [r0, r1, r2]"
    and facts: "meta_user_id r0 = ''student_001''" "meta_user_id r1 = ''student_001''"
      "meta_user_id r2 = ''student_001''"
      "evaluation_should_proceed r0" "\<not> evaluation_should_proceed r1"
      "evaluation_should_proceed r2"
    by (rule three_session_results)
  have len: "length three_requests = 3" by (simp add: three_requests_def)
  note T = interaction_number_value [of three_fifths MVG_init essay_query "''student_001''"
      1 2 _ three_requests]
  from T [of 0] T [of 1] T [of 2] fresh ok facts
  show ?thesis
    by (simp add: rs len proceeded_def current_memory_init new_user_memory_def)
qed

lemma lower_char_not_upper: "\<not> is_upper (lower_char c)"
  unfolding lower_char_def is_upper_def Let_def
  by (auto simp: of_char_of)

lemma lower_no_upper: "\<not> list_ex is_upper (lower q)"
  by (simp add: lower_def list_ex_iff lower_char_not_upper)

lemma labels_have_upper: "list_all (list_ex is_upper) surface_labels"
  by code_simp

lemma lower_not_label: "lower q \<notin> set surface_labels"
proof
  assume "lower q \<in> set surface_labels"
  with labels_have_upper have "list_ex is_upper (lower q)"
    by (simp add: list_all_iff)
  with lower_no_upper show False by blast
qed

lemma surface_is_label: "extract_surface_request q \<in> set surface_labels"
  by (simp add: extract_surface_request_def Let_def surface_labels_def)

lemma set_last_n: "set (last_n n xs) \<subseteq> set xs"
  by (simp add: last_n_def set_drop_subset)

lemma not_asked_recently:
  "set (request_history m) \<subseteq> set surface_labels \<Longrightarrow> \<not> asked_recently (lower q) (Some m)"
  using lower_not_label [of q] set_last_n [of 3 "request_history m"]
  by (auto simp: asked_recently_def)

lemma no_repetitive_flag:
  assumes "\<not> asked_recently (lower q) mo"
  shows "''repetitive_dependency'' \<notin> set (detect_ethical_flags q s mo)"
  using assms by (simp add: detect_ethical_flags_def Let_def)

lemma run_history_labels:
  "set (request_history (current_memory (snd (run ex MVG_init reqs)) uid))
     \<subseteq> set surface_labels"
proof -
  have "set (map intent_surface (proceeded uid (fst (run ex mvg reqs)))) \<subseteq> set surface_labels"
    for mvg
  proof (induction reqs arbitrary: mvg)
    case Nil
    show ?case by (simp add: proceeded_def)
  next
    case (Cons req rest)
    obtain q u t1 t2 where req: "req = (q, u, t1, t2)" by (cases req) auto
    show ?case
      unfolding req run_Cons
      using Cons.IH [of "snd (process_request ex mvg q u t1 t2)"] surface_is_label [of q]
      by (auto simp: proceeded_def process_request_surface)
  qed
  then show ?thesis
    using run_accumulates [of ex MVG_init reqs uid]
    by (simp add: current_memory_init new_user_memory_def)
qed

text \<open>
  Claim C10, as amended. For every memory reached through \<open>process_request\<close> calls on a
  new object, \<open>request_history\<close> contains only the seven surface labels, each of which
  has an upper-case letter, while a lower-cased query has none. So the comparison of the
  lower-cased query with the last three entries never succeeds: the flag
  "repetitive_dependency" is never set, and \<open>_check_dependency\<close> never takes the branch
  that escalates on it.
\<close>

theorem repetitive_dependency_unreachable:
  "set (request_history (current_memory (snd (run ex MVG_init reqs)) uid))
     \<subseteq> set surface_labels
   \<and> length surface_labels = 7
   \<and> list_all (list_ex is_upper) surface_labels
   \<and> \<not> list_ex is_upper (lower q)
   \<and> ''repetitive_dependency''
       \<notin> set (ethical_flags
                (analyze q (Some (current_memory (snd (run ex MVG_init reqs)) uid))))
   \<and> ''repetitive_dependency''
       \<notin> set (ethical_flags (analyze q (user_memories (snd (run ex MVG_init reqs)) uid)))
   \<and> check_dependency ex
        (analyze q (Some (current_memory (snd (run ex MVG_init reqs)) uid)))
        (Some (current_memory (snd (run ex MVG_init reqs)) uid))
      = (if 10 < interaction_count (current_memory (snd (run ex MVG_init reqs)) uid)
            \<and> ex (shortcut_pattern (current_memory (snd (run ex MVG_init reqs)) uid))
                 (interaction_count (current_memory (snd (run ex MVG_init reqs)) uid))
         then True
         else ''potential_dependency_creation''
                \<in> set (ethical_flags
                    (analyze q (Some (current_memory (snd (run ex MVG_init reqs)) uid)))))"
proof -
  define m where "m = current_memory (snd (run ex MVG_init reqs)) uid"
  have hist: "set (request_history m) \<subseteq> set surface_labels"
    unfolding m_def by (rule run_history_labels)
  have f1: "''repetitive_dependency'' \<notin> set (ethical_flags (analyze q (Some m)))"
    unfolding flags_analyze
    by (rule no_repetitive_flag) (rule not_asked_recently [OF hist])
  have f2: "''repetitive_dependency''
       \<notin> set (ethical_flags (analyze q (user_memories (snd (run ex MVG_init reqs)) uid)))"
  proof (cases "user_memories (snd (run ex MVG_init reqs)) uid")
    case None
    show ?thesis
      unfolding None flags_analyze
      by (rule no_repetitive_flag) (simp add: asked_recently_def)
  next
    case (Some m')
    then have "m' = m" by (simp add: m_def current_memory_eq)
    with f1 Some show ?thesis by simp
  qed
  have f3: "check_dependency ex (analyze q (Some m)) (Some m)
      = (if 10 < interaction_count m \<and> ex (shortcut_pattern m) (interaction_count m)
         then True
         else ''potential_dependency_creation'' \<in> set (ethical_flags (analyze q (Some m))))"
    using f1 by (simp add: check_dependency_def Let_def)
  have len: "length surface_labels = 7" by (simp add: surface_labels_def)
  from hist len labels_have_upper lower_no_upper [of q] f1 f2 f3
  show ?thesis unfolding m_def by blast
qed

lemma seven_session:
  "request_history (current_memory (snd (run three_fifths MVG_init seven_requests))
      ''student_001'') = surface_labels"
  by code_simp

text \<open>
  The claim C10 as first stated speaks of six labels. A session of seven requests leaves
  seven different labels in the request history of its user.
\<close>

theorem repetitive_dependency_counterexample:
  "request_history (current_memory (snd (run three_fifths MVG_init seven_requests))
      ''student_001'') = surface_labels
   \<and> distinct surface_labels \<and> length surface_labels = 7
   \<and> card (set (request_history (current_memory
        (snd (run three_fifths MVG_init seven_requests)) ''student_001''))) = 7"
proof -
  have d: "distinct surface_labels" by (simp add: surface_labels_def)
  have l: "length surface_labels = 7" by (simp add: surface_labels_def)
  from d l seven_session show ?thesis
    by (simp add: distinct_card)
qed

theorem repetitive_dependency_unreachable_witness:
  "''General inquiry''
     \<in> set (request_history (current_memory (snd (run three_fifths MVG_init seven_requests))
          ''student_001''))
   \<and> ''repetitive_dependency''
       \<notin> set (ethical_flags (analyze ''General inquiry''
            (Some (current_memory (snd (run three_fifths MVG_init seven_requests))
               ''student_001''))))"
proof -
  from seven_session have "''General inquiry''
     \<in> set (request_history (current_memory (snd (run three_fifths MVG_init seven_requests))
          ''student_001''))"
    by (simp add: surface_labels_def)
  with repetitive_dependency_unreachable [of three_fifths seven_requests "''student_001''"
      "''General inquiry''"]
  show ?thesis by blast
qed

end
